theory Spec2Isabelle
  imports Main
begin

section \<open>The output model the property binder emits into\<close>

text \<open>
  The view compiler's property binder (\<open>view_compiler/property_binder.ts\<close>) builds
  statements and expressions of the compiler's output AST and appends them to the methods
  of the view under construction. Only the binder itself is under verification; the
  output AST, the view aggregate and the expression converter live in other modules.
\<close>

text \<open>
  Modelled from the spec: the output statement/expression builder (\<open>output/output_ast\<close>,
  imported as \<open>o\<close>) is not part of the verified source. Each builder call used by the
  binder is one constructor below: \<open>e.prop(n)\<close> is \<open>ReadPropExpr e n\<close>, \<open>e.key(i)\<close> is
  \<open>ReadKeyExpr e i\<close>, \<open>e.callMethod(n, args)\<close> is \<open>InvokeMethodExpr e n args\<close>,
  \<open>e.callFn(args)\<close> is \<open>InvokeFunctionExpr e args\<close>, \<open>c.conditional(a, b)\<close> is
  \<open>ConditionalExpr c a b\<close>, \<open>a.or(b)\<close>, \<open>a.equals(b)\<close>, \<open>a.plus(b)\<close> are
  \<open>BinaryOperatorExpr\<close> nodes, \<open>o.literal(v)\<close> is \<open>LiteralExpr v\<close>, \<open>o.importExpr(id)\<close> is
  \<open>ExternalExpr id\<close>, \<open>e.toStmt()\<close> is \<open>ExpressionStatement e\<close>. The optional type
  annotations of the output AST are always absent in this pass and are left out.
\<close>

datatype StmtModifier = Final | Private

datatype BinaryOperator = Or | Equals | Plus

datatype literal_value = LNull | LBool bool | LString string

text \<open>The runtime identifiers the binder imports through \<open>resolveIdentifier\<close>.\<close>

datatype Identifiers = UNINITIALIZED | checkBinding | SecurityContext | setBindingDebugInfo

datatype expression =
    THIS_EXPR
  | ReadVarExpr string
  | ReadPropExpr expression string
  | ReadKeyExpr expression expression
  | WriteVarExpr string expression
  | WritePropExpr expression string expression
  | InvokeMethodExpr expression string "expression list"
  | InvokeFunctionExpr expression "expression list"
  | LiteralExpr literal_value
  | ExternalExpr Identifiers
  | ConditionalExpr expression expression expression
  | BinaryOperatorExpr BinaryOperator expression expression

datatype statement =
    ExpressionStatement expression
  | DeclareVarStmt string expression "StmtModifier list"
  | IfStmt expression "statement list" "statement list"

datatype ClassField = ClassField string "StmtModifier list"

text \<open>
  The TypeScript signatures distinguish \<open>o.ReadVarExpr\<close> and \<open>o.ReadPropExpr\<close> from
  a general expression, because only these have a name and a \<open>set\<close> method.
\<close>

datatype read_var_expr = ReadVar string

datatype read_prop_expr = ReadProp expression string

fun var_expr :: "read_var_expr \<Rightarrow> expression" where
  "var_expr (ReadVar n) = ReadVarExpr n"

fun prop_expr :: "read_prop_expr \<Rightarrow> expression" where
  "prop_expr (ReadProp r n) = ReadPropExpr r n"

fun prop_name :: "read_prop_expr \<Rightarrow> string" where
  "prop_name (ReadProp r n) = n"

definition NULL_EXPR :: expression where
  "NULL_EXPR = LiteralExpr LNull"

definition isBlank :: "expression \<Rightarrow> expression" where
  "isBlank e = BinaryOperatorExpr Equals e NULL_EXPR"

text \<open>
  Modelled from the spec: the constants of \<open>view_compiler/constants\<close> and
  \<open>private_import_core\<close> are not part of the verified source: the throw-on-change flag
  and the value unwrapper are local variables of the generated change-detection method,
  the view utilities are a property of the generated view, and the empty animation state
  is the string \<open>void\<close>.
\<close>

definition throwOnChange :: expression where
  "throwOnChange = ReadVarExpr ''throwOnChange''"

definition valUnwrapper :: expression where
  "valUnwrapper = ReadVarExpr ''valUnwrapper''"

definition viewUtils :: expression where
  "viewUtils = ReadPropExpr THIS_EXPR ''viewUtils''"

definition EMPTY_ANIMATION_STATE :: string where
  "EMPTY_ANIMATION_STATE = ''void''"

subsection \<open>Decimal rendering of slot indices\<close>

text \<open>
  Template literals such as \<open>`_expr_${exprIndex}`\<close> render a number in decimal.
\<close>

definition digit_char :: "nat \<Rightarrow> char" where
  "digit_char d = ''0123456789'' ! d"

function string_of_nat :: "nat \<Rightarrow> string" where
  "string_of_nat n =
     (if n < 10 then [digit_char n]
      else string_of_nat (n div 10) @ [digit_char (n mod 10)])"
  by pat_completeness auto
termination
  by (relation "measure id") auto

declare string_of_nat.simps [simp del]

section \<open>Template AST and compile-time aggregates\<close>

text \<open>
  Parsed binding expressions (\<open>cdAst.AST\<close>) are opaque to the binder: it only hands them
  to the expression converter. They are identified here by their source text.
\<close>

datatype cdAst = AST string

text \<open>
  Modelled from the spec: the security classification enum of the core package is not part
  of the verified source. It has the six named members; it is a numeric enum, so a
  descriptor can carry a number that matches no member: \<open>OtherContext\<close> with that number.
\<close>

datatype security_context = NONE | HTML | STYLE | SCRIPT | URL | RESOURCE_URL | OtherContext nat

datatype PropertyBindingType = Property | Attribute | Class | Style | Animation

record BoundElementPropertyAst =
  prop_name_of :: string
  prop_type :: PropertyBindingType
  prop_securityContext :: security_context
  prop_value :: cdAst
  prop_unit :: "string option"

record BoundTextAst =
  text_value :: cdAst

record BoundDirectivePropertyAst =
  directiveName :: string
  input_value :: cdAst

datatype error = Error string

section \<open>Sanitizer selector\<close>

definition sanitize_call :: "string \<Rightarrow> expression \<Rightarrow> expression" where
  "sanitize_call enumValue renderValue =
     (let ctx = ReadPropExpr viewUtils ''sanitizer'';
          args = [ReadPropExpr (ExternalExpr SecurityContext) enumValue, renderValue]
      in InvokeMethodExpr ctx ''sanitize'' args)"

definition sanitizedValue :: "BoundElementPropertyAst \<Rightarrow> expression \<Rightarrow> error + expression" where
  "sanitizedValue boundProp renderValue =
     (case prop_securityContext boundProp of
        NONE \<Rightarrow> Inr renderValue
      | HTML \<Rightarrow> Inr (sanitize_call ''HTML'' renderValue)
      | STYLE \<Rightarrow> Inr (sanitize_call ''STYLE'' renderValue)
      | SCRIPT \<Rightarrow> Inr (sanitize_call ''SCRIPT'' renderValue)
      | URL \<Rightarrow> Inr (sanitize_call ''URL'' renderValue)
      | RESOURCE_URL \<Rightarrow> Inr (sanitize_call ''RESOURCE_URL'' renderValue)
      | OtherContext n \<Rightarrow>
          Inl (Error (''internal error, unexpected SecurityContext ''
                        @ string_of_nat n @ ''.'')))"

section \<open>The view under construction\<close>

datatype TemplateAst =
    BoundText BoundTextAst
  | BoundElementProperty BoundElementPropertyAst
  | BoundDirectiveProperty BoundDirectivePropertyAst
  | ElementAst string

record CompileNode =
  nodeIndex :: nat
  renderNode :: expression

record CompileElement = CompileNode +
  appElement :: expression
  sourceAst :: TemplateAst

datatype CompileBinding = CompileBinding CompileNode TemplateAst

definition node_of :: "CompileElement \<Rightarrow> CompileNode" where
  "node_of compileElement =
     \<lparr>nodeIndex = nodeIndex compileElement, renderNode = renderNode compileElement\<rparr>"

text \<open>
  Modelled from the spec: \<open>CompileMethod\<close> and \<open>CompileView\<close> are not part of the verified
  source. A method is an ordered statement list that is only appended to, together with
  the debug position last set by \<open>resetDebugInfo\<close>; the view owns the binding list, the
  field list and its methods. The binder receives methods by reference, so a method
  argument is a \<open>method_ref\<close> naming one of the view's methods, and every write goes
  through the view.
\<close>

record CompileMethod =
  bodyStatements :: "statement list"
  debugInfo :: "(nat \<times> TemplateAst) option"

datatype method_ref =
    CreateMethod
  | DetectChangesRenderPropertiesMethod
  | DetectChangesInInputsMethod
  | AnimationBindingsMethod
  | DetachMethod

record CompileView =
  bindings :: "CompileBinding list"
  viewFields :: "ClassField list"
  createMethod :: CompileMethod
  detectChangesRenderPropertiesMethod :: CompileMethod
  detectChangesInInputsMethod :: CompileMethod
  animationBindingsMethod :: CompileMethod
  detachMethod :: CompileMethod
  componentContext :: expression
  logBindingUpdate :: bool

fun method_of :: "method_ref \<Rightarrow> CompileView \<Rightarrow> CompileMethod" where
  "method_of CreateMethod view = createMethod view"
| "method_of DetectChangesRenderPropertiesMethod view = detectChangesRenderPropertiesMethod view"
| "method_of DetectChangesInInputsMethod view = detectChangesInInputsMethod view"
| "method_of AnimationBindingsMethod view = animationBindingsMethod view"
| "method_of DetachMethod view = detachMethod view"

fun map_method :: "method_ref \<Rightarrow> (CompileMethod \<Rightarrow> CompileMethod) \<Rightarrow> CompileView \<Rightarrow> CompileView" where
  "map_method CreateMethod f view = view\<lparr>createMethod := f (createMethod view)\<rparr>"
| "map_method DetectChangesRenderPropertiesMethod f view =
     view\<lparr>detectChangesRenderPropertiesMethod := f (detectChangesRenderPropertiesMethod view)\<rparr>"
| "map_method DetectChangesInInputsMethod f view =
     view\<lparr>detectChangesInInputsMethod := f (detectChangesInInputsMethod view)\<rparr>"
| "map_method AnimationBindingsMethod f view =
     view\<lparr>animationBindingsMethod := f (animationBindingsMethod view)\<rparr>"
| "map_method DetachMethod f view = view\<lparr>detachMethod := f (detachMethod view)\<rparr>"

definition addStmts :: "method_ref \<Rightarrow> statement list \<Rightarrow> CompileView \<Rightarrow> CompileView" where
  "addStmts method stmts view =
     map_method method (\<lambda>m. m\<lparr>bodyStatements := bodyStatements m @ stmts\<rparr>) view"

definition addStmt :: "method_ref \<Rightarrow> statement \<Rightarrow> CompileView \<Rightarrow> CompileView" where
  "addStmt method stmt view = addStmts method [stmt] view"

definition resetDebugInfo :: "method_ref \<Rightarrow> nat \<Rightarrow> TemplateAst \<Rightarrow> CompileView \<Rightarrow> CompileView" where
  "resetDebugInfo method nodeIdx templateAst view =
     map_method method (\<lambda>m. m\<lparr>debugInfo := Some (nodeIdx, templateAst)\<rparr>) view"

definition stmts_of :: "method_ref \<Rightarrow> CompileView \<Rightarrow> statement list" where
  "stmts_of method view = bodyStatements (method_of method view)"

section \<open>The expression converter\<close>

text \<open>
  The expression converter (\<open>convertCdExpressionToIr\<close>) is a collaborator outside the
  verified source. The binder reads three properties of its result; the converter itself
  is a parameter \<open>conv\<close> of every function below, applied to the same five arguments
  as in the source. A name resolver is either the view itself or a
  \<open>NoLocalsNameResolver\<close> wrapped around it.
\<close>

datatype NameResolver = ViewNameResolver | NoLocalsNameResolver

record ExpressionWithWrappedValueInfo =
  expression :: "expression option"
  needsValueUnwrapper :: bool
  temporaryCount :: nat

type_synonym converter =
  "NameResolver \<Rightarrow> expression \<Rightarrow> cdAst \<Rightarrow> expression \<Rightarrow> nat \<Rightarrow> ExpressionWithWrappedValueInfo"

text \<open>
  Modelled from the spec: \<open>temporaryDeclaration\<close> of the expression converter is not part
  of the verified source. It declares a temporary whose name is derived from the binding
  slot and the number of the temporary, initialised to null.
\<close>

definition temporaryName :: "nat \<Rightarrow> nat \<Rightarrow> string" where
  "temporaryName bindingIndex temporaryNumber =
     ''tmp_'' @ string_of_nat bindingIndex @ ''_'' @ string_of_nat temporaryNumber"

definition temporaryDeclaration :: "nat \<Rightarrow> nat \<Rightarrow> statement" where
  "temporaryDeclaration bindingIndex temporaryNumber =
     DeclareVarStmt (temporaryName bindingIndex temporaryNumber) NULL_EXPR []"

section \<open>Expression evaluator and change guard emitter\<close>

definition createBindFieldExpr :: "nat \<Rightarrow> read_prop_expr" where
  "createBindFieldExpr exprIndex = ReadProp THIS_EXPR (''_expr_'' @ string_of_nat exprIndex)"

definition createCurrValueExpr :: "nat \<Rightarrow> read_var_expr" where
  "createCurrValueExpr exprIndex = ReadVar (''currVal_'' @ string_of_nat exprIndex)"

record EvalResult =
  forceUpdate :: "expression option"

text \<open>The \<open>for\<close> loop of \<open>evalCdAst\<close> over the temporaries, from counter \<open>i\<close>.\<close>

function declareTemporaries ::
  "method_ref \<Rightarrow> nat \<Rightarrow> nat \<Rightarrow> nat \<Rightarrow> CompileView \<Rightarrow> CompileView" where
  "declareTemporaries method bindingIndex count i view =
     (if i < count
      then declareTemporaries method bindingIndex count (Suc i)
             (addStmt method (temporaryDeclaration bindingIndex i) view)
      else view)"
  by pat_completeness auto
termination
  by (relation "measure (\<lambda>(method, bindingIndex, count, i, view). count - i)") auto

declare declareTemporaries.simps [simp del]

definition evalCdAst ::
  "converter \<Rightarrow> CompileView \<Rightarrow> read_var_expr \<Rightarrow> cdAst \<Rightarrow> expression \<Rightarrow> NameResolver
     \<Rightarrow> method_ref \<Rightarrow> nat \<Rightarrow> EvalResult option \<times> CompileView" where
  "evalCdAst conv view currValExpr parsedExpression context nameResolver method bindingIndex =
     (let checkExpression = conv nameResolver context parsedExpression valUnwrapper bindingIndex
      in case expression checkExpression of
           None \<Rightarrow> (None, view)
         | Some e \<Rightarrow>
             (let view1 = declareTemporaries method bindingIndex
                            (temporaryCount checkExpression) 0 view;
                  view2 = (if needsValueUnwrapper checkExpression
                           then addStmt method
                                  (ExpressionStatement (InvokeMethodExpr valUnwrapper ''reset'' []))
                                  view1
                           else view1);
                  view3 = addStmt method
                            (case currValExpr of ReadVar n \<Rightarrow> DeclareVarStmt n e [Final]) view2
              in if needsValueUnwrapper checkExpression
                 then (Some \<lparr>forceUpdate = Some (ReadPropExpr valUnwrapper ''hasWrappedValue'')\<rparr>,
                       view3)
                 else (Some \<lparr>forceUpdate = None\<rparr>, view3)))"

definition bind ::
  "converter \<Rightarrow> CompileView \<Rightarrow> read_var_expr \<Rightarrow> read_prop_expr \<Rightarrow> cdAst \<Rightarrow> expression
     \<Rightarrow> NameResolver \<Rightarrow> statement list \<Rightarrow> method_ref \<Rightarrow> nat \<Rightarrow> CompileView" where
  "bind conv view currValExpr fieldExpr parsedExpression context nameResolver actions method
        bindingIndex =
     (case evalCdAst conv view currValExpr parsedExpression context nameResolver method
             bindingIndex of
        (None, view1) \<Rightarrow> view1
      | (Some evalResult, view1) \<Rightarrow>
          (let view2 = view1\<lparr>viewFields := viewFields view1 @ [ClassField (prop_name fieldExpr) [Private]]\<rparr>;
               view3 = addStmt CreateMethod
                         (ExpressionStatement
                            (WritePropExpr THIS_EXPR (prop_name fieldExpr)
                               (ExternalExpr UNINITIALIZED)))
                         view2;
               condition = InvokeFunctionExpr (ExternalExpr checkBinding)
                             [throwOnChange, prop_expr fieldExpr, var_expr currValExpr];
               condition' = (case forceUpdate evalResult of
                               Some force \<Rightarrow> BinaryOperatorExpr Or force condition
                             | None \<Rightarrow> condition)
           in addStmt method
                (IfStmt condition'
                   (actions @ [ExpressionStatement
                                 (WritePropExpr THIS_EXPR (prop_name fieldExpr)
                                    (var_expr currValExpr))])
                   [])
                view3))"

section \<open>Text binder\<close>

definition bindRenderText ::
  "converter \<Rightarrow> BoundTextAst \<Rightarrow> CompileNode \<Rightarrow> CompileView \<Rightarrow> CompileView" where
  "bindRenderText conv boundText compileNode view =
     (let bindingIndex = length (bindings view);
          view1 = view\<lparr>bindings := bindings view @ [CompileBinding compileNode (BoundText boundText)]\<rparr>;
          currValExpr = createCurrValueExpr bindingIndex;
          valueField = createBindFieldExpr bindingIndex;
          view2 = resetDebugInfo DetectChangesRenderPropertiesMethod (nodeIndex compileNode)
                    (BoundText boundText) view1
      in bind conv view2 currValExpr valueField (text_value boundText) (componentContext view2)
           ViewNameResolver
           [ExpressionStatement
              (InvokeMethodExpr (ReadPropExpr THIS_EXPR ''renderer'') ''setText''
                 [renderNode compileNode, var_expr currValExpr])]
           DetectChangesRenderPropertiesMethod bindingIndex)"

section \<open>Render property binder\<close>

text \<open>
  An event listener offers \<open>listenToAnimation\<close>, which builds the statement that hooks
  the listener to an animation transition variable (\<open>event_binder\<close>, outside the verified
  source); it is a field of the listener.
\<close>

record CompileEventListener =
  isAnimation :: bool
  eventName :: string
  listenToAnimation :: "read_var_expr \<Rightarrow> statement"

definition logBindingUpdateStmt :: "expression \<Rightarrow> string \<Rightarrow> expression \<Rightarrow> statement" where
  "logBindingUpdateStmt renderNode' propName v =
     ExpressionStatement
       (InvokeFunctionExpr (ExternalExpr setBindingDebugInfo)
          [ReadPropExpr THIS_EXPR ''renderer'', renderNode', LiteralExpr (LString propName), v])"

definition rendererCall :: "string \<Rightarrow> expression \<Rightarrow> string \<Rightarrow> expression \<Rightarrow> statement" where
  "rendererCall methodName renderNode' propName renderValue =
     ExpressionStatement
       (InvokeMethodExpr (ReadPropExpr THIS_EXPR ''renderer'') methodName
          [renderNode', LiteralExpr (LString propName), renderValue])"

text \<open>
  The \<open>eventListeners.forEach\<close> of the animation case: every animation listener of the
  binding's name adds its statement to both statement lists.
\<close>

fun listenAnimations ::
  "CompileEventListener list \<Rightarrow> string \<Rightarrow> read_var_expr
     \<Rightarrow> statement list \<times> statement list \<Rightarrow> statement list \<times> statement list" where
  "listenAnimations [] animationName animationTransitionVar (updateStmts, detachStmts) =
     (updateStmts, detachStmts)"
| "listenAnimations (listener # rest) animationName animationTransitionVar
       (updateStmts, detachStmts) =
     (if isAnimation listener \<and> eventName listener = animationName
      then (let animationStmt = listenToAnimation listener animationTransitionVar
            in listenAnimations rest animationName animationTransitionVar
                 (updateStmts @ [animationStmt], detachStmts @ [animationStmt]))
      else listenAnimations rest animationName animationTransitionVar (updateStmts, detachStmts))"

definition animationFnExpr :: "CompileElement \<Rightarrow> bool \<Rightarrow> string \<Rightarrow> expression" where
  "animationFnExpr compileElement isHostProp animationName =
     (let targetViewExpr = (if isHostProp
                            then ReadPropExpr (appElement compileElement) ''componentView''
                            else THIS_EXPR)
      in ReadKeyExpr (ReadPropExpr (ReadPropExpr targetViewExpr ''componentType'') ''animations'')
           (LiteralExpr (LString animationName)))"

text \<open>
  The \<open>switch\<close> over the binding type inside the loop body. It yields the update
  statements, the method the guard goes to, and, for an animation only, the detach
  statements that the case appends to the view's detach method.
\<close>

definition writeToRenderer ::
  "BoundElementPropertyAst \<Rightarrow> CompileElement \<Rightarrow> bool \<Rightarrow> CompileEventListener list
     \<Rightarrow> bool \<Rightarrow> expression \<Rightarrow> expression
     \<Rightarrow> statement list \<times> method_ref \<times> statement list option" where
  "writeToRenderer boundProp compileElement isHostProp eventListeners logging oldRenderValue
        renderValue =
     (let renderNode' = renderNode compileElement;
          compileMethod = DetectChangesRenderPropertiesMethod
      in case prop_type boundProp of
           Property \<Rightarrow>
             ((if logging
               then [logBindingUpdateStmt renderNode' (prop_name_of boundProp) renderValue]
               else [])
              @ [rendererCall ''setElementProperty'' renderNode' (prop_name_of boundProp)
                   renderValue],
              compileMethod, None)
         | Attribute \<Rightarrow>
             (let renderValue' = ConditionalExpr (isBlank renderValue) NULL_EXPR
                                   (InvokeMethodExpr renderValue ''toString'' [])
              in ([rendererCall ''setElementAttribute'' renderNode' (prop_name_of boundProp)
                     renderValue'],
                  compileMethod, None))
         | Class \<Rightarrow>
             ([rendererCall ''setElementClass'' renderNode' (prop_name_of boundProp) renderValue],
              compileMethod, None)
         | Style \<Rightarrow>
             (let strValue = InvokeMethodExpr renderValue ''toString'' [];
                  strValue' = (case prop_unit boundProp of
                                 Some unit \<Rightarrow>
                                   BinaryOperatorExpr Plus strValue (LiteralExpr (LString unit))
                               | None \<Rightarrow> strValue);
                  renderValue' = ConditionalExpr (isBlank renderValue) NULL_EXPR strValue'
              in ([rendererCall ''setElementStyle'' renderNode' (prop_name_of boundProp)
                     renderValue'],
                  compileMethod, None))
         | Animation \<Rightarrow>
             (let animationName = prop_name_of boundProp;
                  animationFn = animationFnExpr compileElement isHostProp animationName;
                  emptyStateValue = LiteralExpr (LString EMPTY_ANIMATION_STATE);
                  unitializedValue = ExternalExpr UNINITIALIZED;
                  animationTransitionVar = ReadVar (''animationTransition_'' @ animationName);
                  updateStmts =
                    [DeclareVarStmt (''animationTransition_'' @ animationName)
                       (InvokeFunctionExpr animationFn
                          [THIS_EXPR, renderNode',
                           ConditionalExpr
                             (BinaryOperatorExpr Equals oldRenderValue unitializedValue)
                             emptyStateValue oldRenderValue,
                           ConditionalExpr
                             (BinaryOperatorExpr Equals renderValue unitializedValue)
                             emptyStateValue renderValue])
                       []];
                  detachStmts =
                    [DeclareVarStmt (''animationTransition_'' @ animationName)
                       (InvokeFunctionExpr animationFn
                          [THIS_EXPR, renderNode', oldRenderValue, emptyStateValue])
                       []]
              in case listenAnimations eventListeners animationName animationTransitionVar
                        (updateStmts, detachStmts) of
                   (updateStmts', detachStmts') \<Rightarrow>
                     (updateStmts', AnimationBindingsMethod, Some detachStmts')))"

text \<open>
  The body of \<open>boundProps.forEach\<close>. A throw of the sanitizer selector aborts the whole
  pass, so the result is the error instead of a view. The index handed to \<open>bind\<close> is
  \<open>view.bindings.length\<close>, read after the binding record was pushed.
\<close>

definition bindBoundProp ::
  "converter \<Rightarrow> expression \<Rightarrow> CompileElement \<Rightarrow> bool \<Rightarrow> CompileEventListener list
     \<Rightarrow> BoundElementPropertyAst \<Rightarrow> CompileView \<Rightarrow> error + CompileView" where
  "bindBoundProp conv context compileElement isHostProp eventListeners boundProp view =
     (let bindingIndex = length (bindings view);
          view1 = view\<lparr>bindings := bindings view
                    @ [CompileBinding (node_of compileElement) (BoundElementProperty boundProp)]\<rparr>;
          view2 = resetDebugInfo DetectChangesRenderPropertiesMethod (nodeIndex compileElement)
                    (BoundElementProperty boundProp) view1;
          fieldExpr = createBindFieldExpr bindingIndex;
          currValExpr = createCurrValueExpr bindingIndex
      in case sanitizedValue boundProp (prop_expr fieldExpr) of
           Inl e \<Rightarrow> Inl e
         | Inr oldRenderValue \<Rightarrow>
             (case sanitizedValue boundProp (var_expr currValExpr) of
                Inl e \<Rightarrow> Inl e
              | Inr renderValue \<Rightarrow>
                  (case writeToRenderer boundProp compileElement isHostProp eventListeners
                          (logBindingUpdate view2) oldRenderValue renderValue of
                     (updateStmts, compileMethod, detach) \<Rightarrow>
                       (let view3 = (case detach of
                                       Some detachStmts \<Rightarrow> addStmts DetachMethod detachStmts view2
                                     | None \<Rightarrow> view2)
                        in Inr (bind conv view3 currValExpr fieldExpr (prop_value boundProp)
                                  context
                                  (if isHostProp then NoLocalsNameResolver else ViewNameResolver)
                                  updateStmts compileMethod (length (bindings view3)))))))"

fun bindAndWriteToRenderer ::
  "converter \<Rightarrow> BoundElementPropertyAst list \<Rightarrow> expression \<Rightarrow> CompileElement \<Rightarrow> bool
     \<Rightarrow> CompileEventListener list \<Rightarrow> CompileView \<Rightarrow> error + CompileView" where
  "bindAndWriteToRenderer conv [] context compileElement isHostProp eventListeners view = Inr view"
| "bindAndWriteToRenderer conv (boundProp # rest) context compileElement isHostProp
       eventListeners view =
     (case bindBoundProp conv context compileElement isHostProp eventListeners boundProp view of
        Inl e \<Rightarrow> Inl e
      | Inr view' \<Rightarrow>
          bindAndWriteToRenderer conv rest context compileElement isHostProp eventListeners view')"

section \<open>Directives\<close>

text \<open>
  Modelled from the spec: the directive metadata and \<open>isDefaultChangeDetectionStrategy\<close>
  are not part of the verified source. A strategy is default when it is not set or is
  \<open>Default\<close>; the other strategy is the push-based one.
\<close>

datatype ChangeDetectionStrategy = OnPush | Default

record CompileDirectiveMetadata =
  isComponent :: bool
  changeDetection :: "ChangeDetectionStrategy option"

record DirectiveAst =
  directive :: CompileDirectiveMetadata
  inputs :: "BoundDirectivePropertyAst list"
  hostProperties :: "BoundElementPropertyAst list"

definition isDefaultChangeDetectionStrategy :: "ChangeDetectionStrategy option \<Rightarrow> bool" where
  "isDefaultChangeDetectionStrategy cd = (cd = None \<or> cd = Some Default)"

definition bindRenderInputs ::
  "converter \<Rightarrow> BoundElementPropertyAst list \<Rightarrow> CompileElement \<Rightarrow> CompileEventListener list
     \<Rightarrow> CompileView \<Rightarrow> error + CompileView" where
  "bindRenderInputs conv boundProps compileElement eventListeners view =
     bindAndWriteToRenderer conv boundProps (componentContext view) compileElement False
       eventListeners view"

definition bindDirectiveHostProps ::
  "converter \<Rightarrow> DirectiveAst \<Rightarrow> expression \<Rightarrow> CompileElement \<Rightarrow> CompileEventListener list
     \<Rightarrow> CompileView \<Rightarrow> error + CompileView" where
  "bindDirectiveHostProps conv directiveAst directiveInstance compileElement eventListeners view =
     bindAndWriteToRenderer conv (hostProperties directiveAst) directiveInstance compileElement
       True eventListeners view"

text \<open>The body of \<open>directiveAst.inputs.forEach\<close>.\<close>

definition bindInput ::
  "converter \<Rightarrow> expression \<Rightarrow> CompileElement \<Rightarrow> BoundDirectivePropertyAst \<Rightarrow> CompileView
     \<Rightarrow> CompileView" where
  "bindInput conv directiveWrapperInstance compileElement input view =
     (let bindingIndex = length (bindings view);
          view1 = view\<lparr>bindings := bindings view
                    @ [CompileBinding (node_of compileElement) (BoundDirectiveProperty input)]\<rparr>;
          view2 = resetDebugInfo DetectChangesInInputsMethod (nodeIndex compileElement)
                    (BoundDirectiveProperty input) view1;
          currValExpr = createCurrValueExpr bindingIndex
      in case evalCdAst conv view2 currValExpr (input_value input) (componentContext view2)
                ViewNameResolver DetectChangesInInputsMethod bindingIndex of
           (None, view3) \<Rightarrow> view3
         | (Some evalResult, view3) \<Rightarrow>
             addStmt DetectChangesInInputsMethod
               (ExpressionStatement
                  (InvokeMethodExpr directiveWrapperInstance (''check_'' @ directiveName input)
                     [var_expr currValExpr, throwOnChange,
                      (case forceUpdate evalResult of
                         Some force \<Rightarrow> force
                       | None \<Rightarrow> LiteralExpr (LBool False))]))
               view3)"

fun bindInputs ::
  "converter \<Rightarrow> expression \<Rightarrow> CompileElement \<Rightarrow> BoundDirectivePropertyAst list \<Rightarrow> CompileView
     \<Rightarrow> CompileView" where
  "bindInputs conv directiveWrapperInstance compileElement [] view = view"
| "bindInputs conv directiveWrapperInstance compileElement (input # rest) view =
     bindInputs conv directiveWrapperInstance compileElement rest
       (bindInput conv directiveWrapperInstance compileElement input view)"

definition bindDirectiveInputs ::
  "converter \<Rightarrow> DirectiveAst \<Rightarrow> expression \<Rightarrow> CompileElement \<Rightarrow> CompileView \<Rightarrow> CompileView" where
  "bindDirectiveInputs conv directiveAst directiveWrapperInstance compileElement view =
     (let view1 = resetDebugInfo DetectChangesInInputsMethod (nodeIndex compileElement)
                    (sourceAst compileElement) view;
          view2 = bindInputs conv directiveWrapperInstance compileElement (inputs directiveAst)
                    view1;
          isOnPushComp = (isComponent (directive directiveAst)
                          \<and> \<not> isDefaultChangeDetectionStrategy
                                (changeDetection (directive directiveAst)));
          directiveDetectChangesExpr =
            InvokeMethodExpr directiveWrapperInstance ''detectChangesInternal''
              [THIS_EXPR, renderNode compileElement, throwOnChange];
          directiveDetectChangesStmt =
            (if isOnPushComp
             then IfStmt directiveDetectChangesExpr
                    [ExpressionStatement
                       (InvokeMethodExpr
                          (ReadPropExpr (appElement compileElement) ''componentView'')
                          ''markAsCheckOnce'' [])]
                    []
             else ExpressionStatement directiveDetectChangesExpr)
      in addStmt DetectChangesInInputsMethod directiveDetectChangesStmt view2)"

section \<open>The statements one binding contributes\<close>

text \<open>
  The definitions of this section describe, as plain lists, what each operation appends to
  a method of the view; the lemmas below relate the state-passing code to them.
\<close>

fun isIfStmt :: "statement \<Rightarrow> bool" where
  "isIfStmt (IfStmt c t f) = True"
| "isIfStmt (ExpressionStatement e) = False"
| "isIfStmt (DeclareVarStmt n e ms) = False"

text \<open>The statement that resets the value unwrapper before a value is computed.\<close>

definition unwrapperReset :: statement where
  "unwrapperReset = ExpressionStatement (InvokeMethodExpr valUnwrapper ''reset'' [])"

text \<open>
  What the expression evaluator appends for a lowered expression \<open>e\<close>: the temporaries,
  the unwrapper reset when unwrapping is needed, and the declaration of the fresh value.
\<close>

definition evalStmts ::
  "ExpressionWithWrappedValueInfo \<Rightarrow> read_var_expr \<Rightarrow> nat \<Rightarrow> expression \<Rightarrow> statement list" where
  "evalStmts checkExpression currValExpr bindingIndex e =
     map (temporaryDeclaration bindingIndex) [0..<temporaryCount checkExpression]
     @ (if needsValueUnwrapper checkExpression then [unwrapperReset] else [])
     @ [case currValExpr of ReadVar n \<Rightarrow> DeclareVarStmt n e [Final]]"

text \<open>The create-method statement that sets a cached field to the uninitialized sentinel.\<close>

definition fieldInit :: "read_prop_expr \<Rightarrow> statement" where
  "fieldInit fieldExpr =
     ExpressionStatement
       (WritePropExpr THIS_EXPR (prop_name fieldExpr) (ExternalExpr UNINITIALIZED))"

text \<open>
  The conditional guard: the comparison of the cached field with the fresh value, preceded
  by the force-update flag when \<open>forced\<close>, around the apply statements and the copy of the
  fresh value into the cached field.
\<close>

definition guardStmt :: "bool \<Rightarrow> read_prop_expr \<Rightarrow> read_var_expr \<Rightarrow> statement list \<Rightarrow> statement" where
  "guardStmt forced fieldExpr currValExpr actions =
     (let check = InvokeFunctionExpr (ExternalExpr checkBinding)
                    [throwOnChange, prop_expr fieldExpr, var_expr currValExpr]
      in IfStmt
           (if forced then BinaryOperatorExpr Or (ReadPropExpr valUnwrapper ''hasWrappedValue'') check
            else check)
           (actions @ [ExpressionStatement
                         (WritePropExpr THIS_EXPR (prop_name fieldExpr) (var_expr currValExpr))])
           [])"

text \<open>What \<open>bind\<close> appends to the method \<open>m\<close> of the view, and to the view's field list.\<close>

definition bindStmts ::
  "converter \<Rightarrow> read_var_expr \<Rightarrow> read_prop_expr \<Rightarrow> cdAst \<Rightarrow> expression \<Rightarrow> NameResolver
     \<Rightarrow> statement list \<Rightarrow> method_ref \<Rightarrow> nat \<Rightarrow> method_ref \<Rightarrow> statement list" where
  "bindStmts conv currValExpr fieldExpr parsedExpression context nameResolver actions method
        bindingIndex m =
     (let checkExpression = conv nameResolver context parsedExpression valUnwrapper bindingIndex
      in case expression checkExpression of
           None \<Rightarrow> []
         | Some e \<Rightarrow>
             (if m = method then evalStmts checkExpression currValExpr bindingIndex e else [])
             @ (if m = CreateMethod then [fieldInit fieldExpr] else [])
             @ (if m = method
                then [guardStmt (needsValueUnwrapper checkExpression) fieldExpr currValExpr actions]
                else []))"

definition bindFields ::
  "converter \<Rightarrow> read_prop_expr \<Rightarrow> cdAst \<Rightarrow> expression \<Rightarrow> NameResolver \<Rightarrow> nat \<Rightarrow> ClassField list" where
  "bindFields conv fieldExpr parsedExpression context nameResolver bindingIndex =
     (case expression (conv nameResolver context parsedExpression valUnwrapper bindingIndex) of
        None \<Rightarrow> []
      | Some e \<Rightarrow> [ClassField (prop_name fieldExpr) [Private]])"

text \<open>
  What the loop body of the render property binder appends to the method \<open>m\<close> for the
  bound property registered at \<open>slot\<close>, and to the field list. The guard emitter is
  entered with the index after the slot.
\<close>

definition propStmts ::
  "converter \<Rightarrow> expression \<Rightarrow> CompileElement \<Rightarrow> bool \<Rightarrow> CompileEventListener list \<Rightarrow> bool
     \<Rightarrow> nat \<Rightarrow> BoundElementPropertyAst \<Rightarrow> method_ref \<Rightarrow> statement list" where
  "propStmts conv context compileElement isHostProp eventListeners logging slot boundProp m =
     (case sanitizedValue boundProp (prop_expr (createBindFieldExpr slot)) of
        Inl err \<Rightarrow> []
      | Inr oldRenderValue \<Rightarrow>
          (case sanitizedValue boundProp (var_expr (createCurrValueExpr slot)) of
             Inl err \<Rightarrow> []
           | Inr renderValue \<Rightarrow>
               (case writeToRenderer boundProp compileElement isHostProp eventListeners logging
                       oldRenderValue renderValue of
                  (updateStmts, compileMethod, detach) \<Rightarrow>
                    (case detach of
                       Some detachStmts \<Rightarrow> (if m = DetachMethod then detachStmts else [])
                     | None \<Rightarrow> [])
                    @ bindStmts conv (createCurrValueExpr slot) (createBindFieldExpr slot)
                        (prop_value boundProp) context
                        (if isHostProp then NoLocalsNameResolver else ViewNameResolver)
                        updateStmts compileMethod (Suc slot) m)))"

definition propFields ::
  "converter \<Rightarrow> expression \<Rightarrow> bool \<Rightarrow> nat \<Rightarrow> BoundElementPropertyAst \<Rightarrow> ClassField list" where
  "propFields conv context isHostProp slot boundProp =
     bindFields conv (createBindFieldExpr slot) (prop_value boundProp) context
       (if isHostProp then NoLocalsNameResolver else ViewNameResolver) (Suc slot)"

text \<open>What the directive input binder appends for the input registered at \<open>slot\<close>.\<close>

definition checkInputStmt :: "expression \<Rightarrow> BoundDirectivePropertyAst \<Rightarrow> read_var_expr \<Rightarrow> bool \<Rightarrow> statement" where
  "checkInputStmt directiveWrapperInstance input currValExpr forced =
     ExpressionStatement
       (InvokeMethodExpr directiveWrapperInstance (''check_'' @ directiveName input)
          [var_expr currValExpr, throwOnChange,
           if forced then ReadPropExpr valUnwrapper ''hasWrappedValue''
           else LiteralExpr (LBool False)])"

definition inputStmts ::
  "converter \<Rightarrow> expression \<Rightarrow> expression \<Rightarrow> nat \<Rightarrow> BoundDirectivePropertyAst \<Rightarrow> statement list" where
  "inputStmts conv directiveWrapperInstance context slot input =
     (let checkExpression = conv ViewNameResolver context (input_value input) valUnwrapper slot
      in case expression checkExpression of
           None \<Rightarrow> []
         | Some e \<Rightarrow>
             evalStmts checkExpression (createCurrValueExpr slot) slot e
             @ [checkInputStmt directiveWrapperInstance input (createCurrValueExpr slot)
                  (needsValueUnwrapper checkExpression)])"

text \<open>The statement that runs the directive wrapper's own change detection.\<close>

definition detectChangesStmt :: "DirectiveAst \<Rightarrow> expression \<Rightarrow> CompileElement \<Rightarrow> statement" where
  "detectChangesStmt directiveAst directiveWrapperInstance compileElement =
     (let call = InvokeMethodExpr directiveWrapperInstance ''detectChangesInternal''
                   [THIS_EXPR, renderNode compileElement, throwOnChange]
      in if isComponent (directive directiveAst)
            \<and> \<not> isDefaultChangeDetectionStrategy (changeDetection (directive directiveAst))
         then IfStmt call
                [ExpressionStatement
                   (InvokeMethodExpr (ReadPropExpr (appElement compileElement) ''componentView'')
                      ''markAsCheckOnce'' [])]
                []
         else ExpressionStatement call)"

text \<open>The classifications the sanitizer selector has a case for.\<close>

fun isKnownContext :: "security_context \<Rightarrow> bool" where
  "isKnownContext (OtherContext n) = False"
| "isKnownContext sc = True"

text \<open>
  The declaration of an animation transition variable, and the statements of the animation
  listeners that match a binding's name.
\<close>

definition transitionDecl :: "string \<Rightarrow> expression \<Rightarrow> expression list \<Rightarrow> statement" where
  "transitionDecl animationName animationFn args =
     DeclareVarStmt (''animationTransition_'' @ animationName)
       (InvokeFunctionExpr animationFn args) []"

definition animationListenerStmts :: "CompileEventListener list \<Rightarrow> string \<Rightarrow> statement list" where
  "animationListenerStmts eventListeners animationName =
     map (\<lambda>listener. listenToAnimation listener (ReadVar (''animationTransition_'' @ animationName)))
       (filter (\<lambda>listener. isAnimation listener \<and> eventName listener = animationName)
          eventListeners)"

subsection \<open>Example inputs\<close>

text \<open>
  A view with nothing registered, an element, a converter that lowers an empty source
  text to nothing and any other text to a property read that needs one temporary, and
  bindings of several kinds.
\<close>

definition emptyMethod :: CompileMethod where
  "emptyMethod = \<lparr>bodyStatements = [], debugInfo = None\<rparr>"

definition emptyView :: CompileView where
  "emptyView =
     \<lparr>bindings = [], viewFields = [], createMethod = emptyMethod,
      detectChangesRenderPropertiesMethod = emptyMethod,
      detectChangesInInputsMethod = emptyMethod, animationBindingsMethod = emptyMethod,
      detachMethod = emptyMethod, componentContext = ReadPropExpr THIS_EXPR ''context'',
      logBindingUpdate = False\<rparr>"

definition sampleElement :: CompileElement where
  "sampleElement =
     \<lparr>nodeIndex = 3, renderNode = ReadPropExpr THIS_EXPR ''_el_3'',
      appElement = ReadPropExpr THIS_EXPR ''_appEl_3'', sourceAst = ElementAst ''div''\<rparr>"

definition sampleConverter :: converter where
  "sampleConverter nameResolver context ast unwrapper bindingIndex =
     (case ast of
        AST src \<Rightarrow>
          \<lparr>expression = (if src = [] then None else Some (ReadPropExpr context src)),
           needsValueUnwrapper = False, temporaryCount = 1\<rparr>)"

definition sampleProperty :: BoundElementPropertyAst where
  "sampleProperty =
     \<lparr>prop_name_of = ''title'', prop_type = Property, prop_securityContext = NONE,
      prop_value = AST ''name'', prop_unit = None\<rparr>"

definition sampleStyle :: BoundElementPropertyAst where
  "sampleStyle =
     \<lparr>prop_name_of = ''width'', prop_type = Style, prop_securityContext = STYLE,
      prop_value = AST ''w'', prop_unit = Some ''px''\<rparr>"

definition sampleAnimation :: BoundElementPropertyAst where
  "sampleAnimation =
     \<lparr>prop_name_of = ''fade'', prop_type = Animation, prop_securityContext = NONE,
      prop_value = AST ''state'', prop_unit = None\<rparr>"

definition sampleDirective :: DirectiveAst where
  "sampleDirective =
     \<lparr>directive = \<lparr>isComponent = True, changeDetection = Some OnPush\<rparr>,
      inputs = [\<lparr>directiveName = ''value'', input_value = AST ''v''\<rparr>,
                \<lparr>directiveName = ''other'', input_value = AST ''''\<rparr>],
      hostProperties = []\<rparr>"

section \<open>How the operations change the view\<close>

lemma stmts_of_addStmts:
  "stmts_of m (addStmts m' ss v) = (if m = m' then stmts_of m v @ ss else stmts_of m v)"
  by (cases m; cases m') (simp_all add: stmts_of_def addStmts_def)

lemma stmts_of_addStmt:
  "stmts_of m (addStmt m' s v) = (if m = m' then stmts_of m v @ [s] else stmts_of m v)"
  by (simp add: addStmt_def stmts_of_addStmts)

lemma stmts_of_resetDebugInfo: "stmts_of m (resetDebugInfo m' i t v) = stmts_of m v"
  by (cases m; cases m') (simp_all add: stmts_of_def resetDebugInfo_def)

lemma stmts_of_bindings_update: "stmts_of m (v\<lparr>bindings := bs\<rparr>) = stmts_of m v"
  by (cases m) (simp_all add: stmts_of_def)

lemma stmts_of_viewFields_update: "stmts_of m (v\<lparr>viewFields := fs\<rparr>) = stmts_of m v"
  by (cases m) (simp_all add: stmts_of_def)

lemma frame_addStmts:
  "viewFields (addStmts m ss v) = viewFields v"
  "bindings (addStmts m ss v) = bindings v"
  "componentContext (addStmts m ss v) = componentContext v"
  "logBindingUpdate (addStmts m ss v) = logBindingUpdate v"
  by (cases m; simp add: addStmts_def)+

lemma frame_addStmt:
  "viewFields (addStmt m s v) = viewFields v"
  "bindings (addStmt m s v) = bindings v"
  "componentContext (addStmt m s v) = componentContext v"
  "logBindingUpdate (addStmt m s v) = logBindingUpdate v"
  by (simp_all add: addStmt_def frame_addStmts)

lemma frame_resetDebugInfo:
  "viewFields (resetDebugInfo m i t v) = viewFields v"
  "bindings (resetDebugInfo m i t v) = bindings v"
  "componentContext (resetDebugInfo m i t v) = componentContext v"
  "logBindingUpdate (resetDebugInfo m i t v) = logBindingUpdate v"
  by (cases m; simp add: resetDebugInfo_def)+

lemma addStmts_Nil: "addStmts m [] v = v"
  by (cases m) (simp_all add: addStmts_def)

lemma addStmts_addStmts: "addStmts m ys (addStmts m xs v) = addStmts m (xs @ ys) v"
  by (cases m) (simp_all add: addStmts_def)

lemma declareTemporaries_addStmts:
  "declareTemporaries m b c i v = addStmts m (map (temporaryDeclaration b) [i..<c]) v"
proof (induction m b c i v rule: declareTemporaries.induct)
  case (1 target slot count i view)
  show ?case
  proof (cases "i < count")
    case True
    then have "declareTemporaries target slot count i view
        = addStmts target (map (temporaryDeclaration slot) [Suc i..<count])
            (addStmt target (temporaryDeclaration slot i) view)"
      using 1 by (simp add: declareTemporaries.simps [of target slot count i])
    also have "\<dots> = addStmts target (map (temporaryDeclaration slot) [i..<count]) view"
      using True by (simp add: addStmt_def addStmts_addStmts upt_conv_Cons)
    finally show ?thesis .
  next
    case False
    then show ?thesis
      by (simp add: declareTemporaries.simps [of target slot count i] addStmts_Nil)
  qed
qed

lemma evalCdAst_None:
  "expression (conv nr ctx pe valUnwrapper b) = None \<Longrightarrow>
   evalCdAst conv v cv pe ctx nr m b = (None, v)"
  by (simp add: evalCdAst_def)

lemma evalCdAst_Some:
  "expression (conv nr ctx pe valUnwrapper b) = Some e \<Longrightarrow>
   evalCdAst conv v cv pe ctx nr m b =
     (Some \<lparr>forceUpdate = (if needsValueUnwrapper (conv nr ctx pe valUnwrapper b)
                            then Some (ReadPropExpr valUnwrapper ''hasWrappedValue'') else None)\<rparr>,
      addStmts m (evalStmts (conv nr ctx pe valUnwrapper b) cv b e) v)"
  by (simp add: evalCdAst_def Let_def declareTemporaries_addStmts addStmt_def addStmts_addStmts
        evalStmts_def unwrapperReset_def)

lemma bind_None:
  "expression (conv nr ctx pe valUnwrapper b) = None \<Longrightarrow> bind conv v cv fe pe ctx nr acts m b = v"
  by (simp add: bind_def evalCdAst_None)

lemma bind_Some:
  "expression (conv nr ctx pe valUnwrapper b) = Some e \<Longrightarrow>
   bind conv v cv fe pe ctx nr acts m b =
     addStmt m (guardStmt (needsValueUnwrapper (conv nr ctx pe valUnwrapper b)) fe cv acts)
       (addStmt CreateMethod (fieldInit fe)
          ((addStmts m (evalStmts (conv nr ctx pe valUnwrapper b) cv b e) v)
             \<lparr>viewFields := viewFields v @ [ClassField (prop_name fe) [Private]]\<rparr>))"
  by (simp add: bind_def evalCdAst_Some Let_def guardStmt_def fieldInit_def frame_addStmts
           split: option.splits)

lemma stmts_of_bind:
  "stmts_of m' (bind conv v cv fe pe ctx nr acts m b)
     = stmts_of m' v @ bindStmts conv cv fe pe ctx nr acts m b m'"
proof (cases "expression (conv nr ctx pe valUnwrapper b)")
  case None
  then show ?thesis by (simp add: bind_None bindStmts_def)
next
  case (Some e)
  then show ?thesis
    by (simp add: bind_Some bindStmts_def Let_def stmts_of_addStmt stmts_of_addStmts
          stmts_of_viewFields_update)
qed

lemma viewFields_bind:
  "viewFields (bind conv v cv fe pe ctx nr acts m b) = viewFields v @ bindFields conv fe pe ctx nr b"
proof (cases "expression (conv nr ctx pe valUnwrapper b)")
  case None
  then show ?thesis by (simp add: bind_None bindFields_def)
next
  case (Some e)
  then show ?thesis
    by (simp add: bind_Some bindFields_def frame_addStmt)
qed

lemma frame_bind:
  "bindings (bind conv v cv fe pe ctx nr acts m b) = bindings v"
  "componentContext (bind conv v cv fe pe ctx nr acts m b) = componentContext v"
  "logBindingUpdate (bind conv v cv fe pe ctx nr acts m b) = logBindingUpdate v"
  by (cases "expression (conv nr ctx pe valUnwrapper b)";
      simp add: bind_None bind_Some frame_addStmt frame_addStmts)+

lemma bindBoundProp_Inr:
  assumes "bindBoundProp conv ctx ce hp ls bp v = Inr v'"
  shows "stmts_of m v' = stmts_of m v
           @ propStmts conv ctx ce hp ls (logBindingUpdate v) (length (bindings v)) bp m"
    and "viewFields v' = viewFields v @ propFields conv ctx hp (length (bindings v)) bp"
    and "bindings v' = bindings v @ [CompileBinding (node_of ce) (BoundElementProperty bp)]"
    and "logBindingUpdate v' = logBindingUpdate v"
    and "componentContext v' = componentContext v"
  using assms
  by (auto simp: bindBoundProp_def Let_def propStmts_def propFields_def stmts_of_bind
        viewFields_bind frame_bind stmts_of_addStmts frame_addStmts stmts_of_resetDebugInfo
        frame_resetDebugInfo stmts_of_bindings_update
      split: sum.splits prod.splits option.splits)

lemma bindAndWriteToRenderer_Inr:
  assumes "bindAndWriteToRenderer conv bps ctx ce hp ls v = Inr v'"
  shows "stmts_of m v' = stmts_of m v
           @ concat (map (\<lambda>(slot, bp). propStmts conv ctx ce hp ls (logBindingUpdate v) slot bp m)
                       (enumerate (length (bindings v)) bps))
         \<and> viewFields v' = viewFields v
           @ concat (map (\<lambda>(slot, bp). propFields conv ctx hp slot bp)
                       (enumerate (length (bindings v)) bps))
         \<and> length (bindings v') = length (bindings v) + length bps
         \<and> logBindingUpdate v' = logBindingUpdate v
         \<and> componentContext v' = componentContext v"
  using assms
proof (induction bps arbitrary: v)
  case Nil
  then show ?case by simp
next
  case (Cons bp bps)
  from Cons.prems obtain v1 where
    step: "bindBoundProp conv ctx ce hp ls bp v = Inr v1" and
    rest: "bindAndWriteToRenderer conv bps ctx ce hp ls v1 = Inr v'"
    by (auto split: sum.splits)
  note s = bindBoundProp_Inr [OF step]
  from Cons.IH [OF rest] show ?case
    by (simp add: s)
qed

lemma bindInput_eq:
  "bindInput conv w ce input v =
     addStmts DetectChangesInInputsMethod
       (inputStmts conv w (componentContext v) (length (bindings v)) input)
       (resetDebugInfo DetectChangesInInputsMethod (nodeIndex ce) (BoundDirectiveProperty input)
          (v\<lparr>bindings := bindings v
                @ [CompileBinding (node_of ce) (BoundDirectiveProperty input)]\<rparr>))"
proof (cases "expression (conv ViewNameResolver (componentContext v) (input_value input)
                valUnwrapper (length (bindings v)))")
  case None
  then show ?thesis
    by (simp add: bindInput_def Let_def inputStmts_def evalCdAst_None frame_resetDebugInfo
          addStmts_Nil)
next
  case (Some e)
  then show ?thesis
    by (simp add: bindInput_def Let_def inputStmts_def evalCdAst_Some frame_resetDebugInfo
          addStmt_def addStmts_addStmts checkInputStmt_def)
qed

lemma bindInput_obs:
  "stmts_of m (bindInput conv w ce input v)
     = stmts_of m v @ (if m = DetectChangesInInputsMethod
                       then inputStmts conv w (componentContext v) (length (bindings v)) input
                       else [])"
  "viewFields (bindInput conv w ce input v) = viewFields v"
  "bindings (bindInput conv w ce input v)
     = bindings v @ [CompileBinding (node_of ce) (BoundDirectiveProperty input)]"
  "componentContext (bindInput conv w ce input v) = componentContext v"
  "logBindingUpdate (bindInput conv w ce input v) = logBindingUpdate v"
  by (simp_all add: bindInput_eq stmts_of_addStmts stmts_of_resetDebugInfo
        stmts_of_bindings_update frame_addStmts frame_resetDebugInfo)

lemma bindInputs_obs:
  "stmts_of m (bindInputs conv w ce ins v)
     = stmts_of m v @ (if m = DetectChangesInInputsMethod
                       then concat (map (\<lambda>(slot, input).
                                           inputStmts conv w (componentContext v) slot input)
                                      (enumerate (length (bindings v)) ins))
                       else [])
   \<and> viewFields (bindInputs conv w ce ins v) = viewFields v
   \<and> length (bindings (bindInputs conv w ce ins v)) = length (bindings v) + length ins
   \<and> componentContext (bindInputs conv w ce ins v) = componentContext v
   \<and> logBindingUpdate (bindInputs conv w ce ins v) = logBindingUpdate v"
proof (induction ins arbitrary: v)
  case Nil
  show ?case by simp
next
  case (Cons input ins)
  show ?case
    by (simp add: Cons.IH bindInput_obs)
qed

lemma bindDirectiveInputs_eq:
  "bindDirectiveInputs conv d w ce v =
     addStmt DetectChangesInInputsMethod (detectChangesStmt d w ce)
       (bindInputs conv w ce (inputs d)
          (resetDebugInfo DetectChangesInInputsMethod (nodeIndex ce) (sourceAst ce) v))"
  by (simp add: bindDirectiveInputs_def Let_def detectChangesStmt_def)

lemma bindDirectiveInputs_obs:
  "stmts_of m (bindDirectiveInputs conv d w ce v)
     = stmts_of m v @ (if m = DetectChangesInInputsMethod
                       then concat (map (\<lambda>(slot, input).
                                           inputStmts conv w (componentContext v) slot input)
                                      (enumerate (length (bindings v)) (inputs d)))
                            @ [detectChangesStmt d w ce]
                       else [])"
  "viewFields (bindDirectiveInputs conv d w ce v) = viewFields v"
  "length (bindings (bindDirectiveInputs conv d w ce v)) = length (bindings v) + length (inputs d)"
  by (simp_all add: bindDirectiveInputs_eq stmts_of_addStmt frame_addStmt bindInputs_obs
        stmts_of_resetDebugInfo frame_resetDebugInfo)

lemma isIfStmt_evalStmts: "filter isIfStmt (evalStmts ce cv b e) = []"
  by (cases cv) (simp add: evalStmts_def unwrapperReset_def temporaryDeclaration_def filter_map o_def)

lemma listenAnimations_eq:
  "listenAnimations ls name var (us, ds) =
     (us @ map (\<lambda>l. listenToAnimation l var)
             (filter (\<lambda>l. isAnimation l \<and> eventName l = name) ls),
      ds @ map (\<lambda>l. listenToAnimation l var)
             (filter (\<lambda>l. isAnimation l \<and> eventName l = name) ls))"
  by (induction ls arbitrary: us ds) (simp_all add: Let_def)

lemma string_of_nat_0: "string_of_nat 0 = ''0''"
  by (simp add: string_of_nat.simps digit_char_def)

lemma string_of_nat_1: "string_of_nat (Suc 0) = ''1''"
  by (simp add: string_of_nat.simps digit_char_def)

lemma stmts_of_emptyView: "stmts_of m emptyView = []"
  by (cases m) (simp_all add: stmts_of_def emptyView_def emptyMethod_def)

lemma emptyView_simps:
  "bindings emptyView = []"
  "viewFields emptyView = []"
  "componentContext emptyView = ReadPropExpr THIS_EXPR ''context''"
  "logBindingUpdate emptyView = False"
  by (simp_all add: emptyView_def)

lemma sanitizedValue_known:
  "isKnownContext (prop_securityContext bp) \<Longrightarrow> \<exists>x. sanitizedValue bp v = Inr x"
  by (cases "prop_securityContext bp") (simp_all add: sanitizedValue_def)

lemma sanitizedValue_Inr_known:
  "sanitizedValue bp v = Inr x \<Longrightarrow> isKnownContext (prop_securityContext bp)"
  by (cases "prop_securityContext bp") (simp_all add: sanitizedValue_def)

lemma bindBoundProp_total:
  assumes "isKnownContext (prop_securityContext bp)"
  shows "\<exists>v'. bindBoundProp conv ctx ce hp ls bp v = Inr v'"
proof -
  obtain old where old: "sanitizedValue bp (prop_expr (createBindFieldExpr (length (bindings v)))) = Inr old"
    using sanitizedValue_known [OF assms] by blast
  obtain new where new: "sanitizedValue bp (var_expr (createCurrValueExpr (length (bindings v)))) = Inr new"
    using sanitizedValue_known [OF assms] by blast
  show ?thesis
    by (simp add: bindBoundProp_def Let_def old new split: prod.splits)
qed

lemma bindAndWriteToRenderer_total:
  assumes "list_all (\<lambda>bp. isKnownContext (prop_securityContext bp)) bps"
  shows "\<exists>v'. bindAndWriteToRenderer conv bps ctx ce hp ls v = Inr v'"
  using assms
proof (induction bps arbitrary: v)
  case Nil
  show ?case by simp
next
  case (Cons bp bps)
  then obtain v1 where "bindBoundProp conv ctx ce hp ls bp v = Inr v1"
    using bindBoundProp_total [of bp conv ctx ce hp ls v] by auto
  with Cons show ?case by simp
qed

lemma bindBoundProp_known:
  assumes "isKnownContext (prop_securityContext bp)"
  shows "\<exists>v'. bindBoundProp conv ctx ce hp ls bp v = Inr v'
           \<and> (\<forall>m. stmts_of m v'
                     = stmts_of m v
                       @ propStmts conv ctx ce hp ls (logBindingUpdate v) (length (bindings v))
                           bp m)"
proof -
  obtain v' where run: "bindBoundProp conv ctx ce hp ls bp v = Inr v'"
    using bindBoundProp_total [OF assms] by blast
  then show ?thesis
    using bindBoundProp_Inr(1) [OF run] by blast
qed

lemma writeToRenderer_Attribute:
  "prop_type bp = Attribute \<Longrightarrow>
   writeToRenderer bp ce hp ls logging old new
     = ([rendererCall ''setElementAttribute'' (renderNode ce) (prop_name_of bp)
           (ConditionalExpr (isBlank new) NULL_EXPR (InvokeMethodExpr new ''toString'' []))],
        DetectChangesRenderPropertiesMethod, None)"
  by (simp add: writeToRenderer_def Let_def)

lemma writeToRenderer_Style:
  "prop_type bp = Style \<Longrightarrow>
   writeToRenderer bp ce hp ls logging old new
     = ([rendererCall ''setElementStyle'' (renderNode ce) (prop_name_of bp)
           (ConditionalExpr (isBlank new) NULL_EXPR
              (case prop_unit bp of
                 None \<Rightarrow> InvokeMethodExpr new ''toString'' []
               | Some unit \<Rightarrow>
                   BinaryOperatorExpr Plus (InvokeMethodExpr new ''toString'' [])
                     (LiteralExpr (LString unit))))],
        DetectChangesRenderPropertiesMethod, None)"
  by (simp add: writeToRenderer_def Let_def split: option.splits)

lemma writeToRenderer_Animation:
  "prop_type bp = Animation \<Longrightarrow>
   writeToRenderer bp ce hp ls logging old new
     = (transitionDecl (prop_name_of bp) (animationFnExpr ce hp (prop_name_of bp))
          [THIS_EXPR, renderNode ce,
           ConditionalExpr (BinaryOperatorExpr Equals old (ExternalExpr UNINITIALIZED))
             (LiteralExpr (LString EMPTY_ANIMATION_STATE)) old,
           ConditionalExpr (BinaryOperatorExpr Equals new (ExternalExpr UNINITIALIZED))
             (LiteralExpr (LString EMPTY_ANIMATION_STATE)) new]
        # animationListenerStmts ls (prop_name_of bp),
        AnimationBindingsMethod,
        Some (transitionDecl (prop_name_of bp) (animationFnExpr ce hp (prop_name_of bp))
                [THIS_EXPR, renderNode ce, old, LiteralExpr (LString EMPTY_ANIMATION_STATE)]
              # animationListenerStmts ls (prop_name_of bp)))"
  by (simp add: writeToRenderer_def Let_def listenAnimations_eq transitionDecl_def
        animationListenerStmts_def)

lemma propStmts_Animation:
  assumes "prop_type bp = Animation"
    and "sanitizedValue bp (prop_expr (createBindFieldExpr n)) = Inr old"
    and "sanitizedValue bp (var_expr (createCurrValueExpr n)) = Inr new"
  shows "propStmts conv ctx ce hp ls logging n bp m
       = (if m = DetachMethod
          then transitionDecl (prop_name_of bp) (animationFnExpr ce hp (prop_name_of bp))
                 [THIS_EXPR, renderNode ce, old, LiteralExpr (LString EMPTY_ANIMATION_STATE)]
               # animationListenerStmts ls (prop_name_of bp)
          else [])
         @ bindStmts conv (createCurrValueExpr n) (createBindFieldExpr n) (prop_value bp) ctx
             (if hp then NoLocalsNameResolver else ViewNameResolver)
             (transitionDecl (prop_name_of bp) (animationFnExpr ce hp (prop_name_of bp))
                [THIS_EXPR, renderNode ce,
                 ConditionalExpr (BinaryOperatorExpr Equals old (ExternalExpr UNINITIALIZED))
                   (LiteralExpr (LString EMPTY_ANIMATION_STATE)) old,
                 ConditionalExpr (BinaryOperatorExpr Equals new (ExternalExpr UNINITIALIZED))
                   (LiteralExpr (LString EMPTY_ANIMATION_STATE)) new]
              # animationListenerStmts ls (prop_name_of bp))
             AnimationBindingsMethod (Suc n) m"
  using assms by (simp add: propStmts_def writeToRenderer_Animation)

lemma isIfStmt_inputStmts: "filter isIfStmt (inputStmts conv w ctx slot input) = []"
  by (simp add: inputStmts_def Let_def isIfStmt_evalStmts checkInputStmt_def split: option.splits)

lemma isIfStmt_input_blocks:
  "filter isIfStmt (concat (map (\<lambda>(slot, input). inputStmts conv w ctx slot input) xs)) = []"
  by (induction xs) (auto simp: isIfStmt_inputStmts)

section \<open>Sanitizer selector\<close>

text \<open>
  Claim C4. The sanitizer selector returns the value unchanged for the classification
  NONE; for each of HTML, STYLE, SCRIPT, URL and RESOURCE_URL it returns the call
  \<open>viewUtils.sanitizer.sanitize(SecurityContext.<NAME>, value)\<close> naming that same
  classification; for a classification that matches none of the six it throws the error
  \<open>internal error, unexpected SecurityContext <n>.\<close>
\<close>

theorem sanitizedValue_selector:
  "sanitizedValue (boundProp\<lparr>prop_securityContext := NONE\<rparr>) renderValue = Inr renderValue
   \<and> sanitizedValue (boundProp\<lparr>prop_securityContext := HTML\<rparr>) renderValue
       = Inr (InvokeMethodExpr (ReadPropExpr viewUtils ''sanitizer'') ''sanitize''
                [ReadPropExpr (ExternalExpr SecurityContext) ''HTML'', renderValue])
   \<and> sanitizedValue (boundProp\<lparr>prop_securityContext := STYLE\<rparr>) renderValue
       = Inr (InvokeMethodExpr (ReadPropExpr viewUtils ''sanitizer'') ''sanitize''
                [ReadPropExpr (ExternalExpr SecurityContext) ''STYLE'', renderValue])
   \<and> sanitizedValue (boundProp\<lparr>prop_securityContext := SCRIPT\<rparr>) renderValue
       = Inr (InvokeMethodExpr (ReadPropExpr viewUtils ''sanitizer'') ''sanitize''
                [ReadPropExpr (ExternalExpr SecurityContext) ''SCRIPT'', renderValue])
   \<and> sanitizedValue (boundProp\<lparr>prop_securityContext := URL\<rparr>) renderValue
       = Inr (InvokeMethodExpr (ReadPropExpr viewUtils ''sanitizer'') ''sanitize''
                [ReadPropExpr (ExternalExpr SecurityContext) ''URL'', renderValue])
   \<and> sanitizedValue (boundProp\<lparr>prop_securityContext := RESOURCE_URL\<rparr>) renderValue
       = Inr (InvokeMethodExpr (ReadPropExpr viewUtils ''sanitizer'') ''sanitize''
                [ReadPropExpr (ExternalExpr SecurityContext) ''RESOURCE_URL'', renderValue])
   \<and> sanitizedValue (boundProp\<lparr>prop_securityContext := OtherContext n\<rparr>) renderValue
       = Inl (Error (''internal error, unexpected SecurityContext '' @ string_of_nat n @ ''.''))"
  by (simp add: sanitizedValue_def sanitize_call_def)

section \<open>Change guard emitter\<close>

text \<open>
  Claim C1. When the expression converter yields an expression, the guard emitter, called
  for a method other than the create method, adds exactly one private field named after
  the cached field, appends exactly one statement to the create method that sets this field
  to the uninitialized sentinel, and appends to the target method the evaluation statements
  (none of them a conditional) followed by exactly one conditional. The condition is
  \<open>checkBinding(throwOnChange, cachedField, freshValue)\<close>, preceded by
  \<open>valUnwrapper.hasWrappedValue ||\<close> when the value needs unwrapping; the then-branch is
  the caller's apply statements followed by the copy of the fresh value into the field.
\<close>

theorem bind_emits_field_and_guard:
  assumes present:
      "expression (conv nameResolver context parsedExpression valUnwrapper bindingIndex) = Some e"
    and target: "method \<noteq> CreateMethod"
    and result: "view' = bind conv view currValExpr fieldExpr parsedExpression context
                           nameResolver actions method bindingIndex"
    and check: "check = InvokeFunctionExpr (ExternalExpr checkBinding)
                          [throwOnChange, prop_expr fieldExpr, var_expr currValExpr]"
  shows "viewFields view' = viewFields view @ [ClassField (prop_name fieldExpr) [Private]]
       \<and> stmts_of CreateMethod view'
           = stmts_of CreateMethod view
             @ [ExpressionStatement
                  (WritePropExpr THIS_EXPR (prop_name fieldExpr) (ExternalExpr UNINITIALIZED))]
       \<and> (\<exists>evaluation.
             filter isIfStmt evaluation = []
             \<and> stmts_of method view'
                 = stmts_of method view @ evaluation
                   @ [IfStmt
                        (if needsValueUnwrapper
                              (conv nameResolver context parsedExpression valUnwrapper bindingIndex)
                         then BinaryOperatorExpr Or (ReadPropExpr valUnwrapper ''hasWrappedValue'')
                                check
                         else check)
                        (actions
                         @ [ExpressionStatement
                              (WritePropExpr THIS_EXPR (prop_name fieldExpr)
                                 (var_expr currValExpr))])
                        []])"
proof -
  let ?ce = "conv nameResolver context parsedExpression valUnwrapper bindingIndex"
  have fields: "viewFields view' = viewFields view @ [ClassField (prop_name fieldExpr) [Private]]"
    using present by (simp add: result viewFields_bind bindFields_def)
  have create: "stmts_of CreateMethod view'
           = stmts_of CreateMethod view
             @ [ExpressionStatement
                  (WritePropExpr THIS_EXPR (prop_name fieldExpr) (ExternalExpr UNINITIALIZED))]"
    using present target
    by (simp add: result stmts_of_bind bindStmts_def Let_def fieldInit_def)
  have "stmts_of method view'
          = stmts_of method view @ evalStmts ?ce currValExpr bindingIndex e
            @ [guardStmt (needsValueUnwrapper ?ce) fieldExpr currValExpr actions]"
    using present target by (simp add: result stmts_of_bind bindStmts_def Let_def)
  then have guard: "\<exists>evaluation.
             filter isIfStmt evaluation = []
             \<and> stmts_of method view'
                 = stmts_of method view @ evaluation
                   @ [IfStmt
                        (if needsValueUnwrapper ?ce
                         then BinaryOperatorExpr Or (ReadPropExpr valUnwrapper ''hasWrappedValue'')
                                check
                         else check)
                        (actions
                         @ [ExpressionStatement
                              (WritePropExpr THIS_EXPR (prop_name fieldExpr)
                                 (var_expr currValExpr))])
                        []]"
    using isIfStmt_evalStmts [of ?ce currValExpr bindingIndex e]
    by (intro exI [of _ "evalStmts ?ce currValExpr bindingIndex e"])
       (simp add: guardStmt_def check Let_def)
  from fields create guard show ?thesis by blast
qed

theorem bind_emits_field_and_guard_witness:
  "expression (sampleConverter ViewNameResolver THIS_EXPR (AST ''name'') valUnwrapper 0)
     = Some (ReadPropExpr THIS_EXPR ''name'')
   \<and> DetectChangesRenderPropertiesMethod \<noteq> CreateMethod
   \<and> viewFields (bind sampleConverter emptyView (ReadVar ''currVal_0'')
                   (ReadProp THIS_EXPR ''_expr_0'') (AST ''name'') THIS_EXPR ViewNameResolver []
                   DetectChangesRenderPropertiesMethod 0)
       = [ClassField ''_expr_0'' [Private]]"
  using bind_emits_field_and_guard
          [of sampleConverter ViewNameResolver THIS_EXPR "AST ''name''" 0
              "ReadPropExpr THIS_EXPR ''name''" DetectChangesRenderPropertiesMethod
              "bind sampleConverter emptyView (ReadVar ''currVal_0'')
                   (ReadProp THIS_EXPR ''_expr_0'') (AST ''name'') THIS_EXPR ViewNameResolver []
                   DetectChangesRenderPropertiesMethod 0"
              emptyView "ReadVar ''currVal_0''" "ReadProp THIS_EXPR ''_expr_0''" "[]"
              "InvokeFunctionExpr (ExternalExpr checkBinding)
                 [throwOnChange, ReadPropExpr THIS_EXPR ''_expr_0'', ReadVarExpr ''currVal_0'']"]
  by (simp add: sampleConverter_def emptyView_def)

text \<open>
  Claim C3. When the expression converter yields no expression, the expression evaluator
  returns nothing and leaves the view as it was, and so does the guard emitter: the field
  list, the create method and every other method of the view are unchanged.
\<close>

theorem absent_evaluation_emits_nothing:
  assumes "expression (conv nameResolver context parsedExpression valUnwrapper bindingIndex) = None"
  shows "evalCdAst conv view currValExpr parsedExpression context nameResolver method bindingIndex
           = (None, view)
       \<and> bind conv view currValExpr fieldExpr parsedExpression context nameResolver actions method
           bindingIndex = view"
  using assms by (simp add: evalCdAst_def bind_def)

theorem absent_evaluation_emits_nothing_witness:
  "expression (sampleConverter ViewNameResolver THIS_EXPR (AST '''') valUnwrapper 0) = None
   \<and> bind sampleConverter emptyView (ReadVar ''currVal_0'') (ReadProp THIS_EXPR ''_expr_0'')
       (AST '''') THIS_EXPR ViewNameResolver [] DetectChangesRenderPropertiesMethod 0 = emptyView"
  using absent_evaluation_emits_nothing
          [of sampleConverter ViewNameResolver THIS_EXPR "AST ''''" 0 emptyView
              "ReadVar ''currVal_0''" DetectChangesRenderPropertiesMethod
              "ReadProp THIS_EXPR ''_expr_0''" "[]"]
  by (simp add: sampleConverter_def)

text \<open>
  Claim C8. Within one binding whose evaluation is present, the guard emitter appends to
  the target method, in this order: one declaration per temporary, numbered from 0; the
  reset of the value unwrapper, only when unwrapping is needed; the final declaration of
  the fresh-value variable; the conditional guard. Across the bound properties of one run
  of the render property binder, every method of the view receives the statements of the
  bindings in registration order: the block of the binding at the first free slot, then
  the block of the next, and so on, after what the method already held.
\<close>

theorem statement_order:
  assumes present:
      "expression (conv nameResolver context parsedExpression valUnwrapper bindingIndex) = Some e"
    and target: "target \<noteq> CreateMethod"
    and known: "list_all (\<lambda>boundProp. isKnownContext (prop_securityContext boundProp)) boundProps"
  shows "stmts_of target
           (bind conv view (ReadVar currVal) fieldExpr parsedExpression context nameResolver
              actions target bindingIndex)
         = stmts_of target view
           @ map (temporaryDeclaration bindingIndex)
               [0..<temporaryCount
                      (conv nameResolver context parsedExpression valUnwrapper bindingIndex)]
           @ (if needsValueUnwrapper
                   (conv nameResolver context parsedExpression valUnwrapper bindingIndex)
              then [ExpressionStatement (InvokeMethodExpr valUnwrapper ''reset'' [])] else [])
           @ [DeclareVarStmt currVal e [Final]]
           @ [guardStmt
                (needsValueUnwrapper
                   (conv nameResolver context parsedExpression valUnwrapper bindingIndex))
                fieldExpr (ReadVar currVal) actions]
       \<and> (\<exists>view'.
             bindAndWriteToRenderer conv boundProps context' compileElement isHostProp
               eventListeners view = Inr view'
             \<and> (\<forall>m. stmts_of m view'
                       = stmts_of m view
                         @ concat
                             (map (\<lambda>(slot, boundProp).
                                     propStmts conv context' compileElement isHostProp
                                       eventListeners (logBindingUpdate view) slot boundProp m)
                                (enumerate (length (bindings view)) boundProps))))"
proof -
  have one: "stmts_of target
           (bind conv view (ReadVar currVal) fieldExpr parsedExpression context nameResolver
              actions target bindingIndex)
         = stmts_of target view
           @ map (temporaryDeclaration bindingIndex)
               [0..<temporaryCount
                      (conv nameResolver context parsedExpression valUnwrapper bindingIndex)]
           @ (if needsValueUnwrapper
                   (conv nameResolver context parsedExpression valUnwrapper bindingIndex)
              then [ExpressionStatement (InvokeMethodExpr valUnwrapper ''reset'' [])] else [])
           @ [DeclareVarStmt currVal e [Final]]
           @ [guardStmt
                (needsValueUnwrapper
                   (conv nameResolver context parsedExpression valUnwrapper bindingIndex))
                fieldExpr (ReadVar currVal) actions]"
    using present target
    by (simp add: stmts_of_bind bindStmts_def Let_def evalStmts_def unwrapperReset_def)
  obtain view' where run:
    "bindAndWriteToRenderer conv boundProps context' compileElement isHostProp eventListeners view
       = Inr view'"
    using bindAndWriteToRenderer_total [OF known] by blast
  have many: "\<forall>m. stmts_of m view'
                       = stmts_of m view
                         @ concat
                             (map (\<lambda>(slot, boundProp).
                                     propStmts conv context' compileElement isHostProp
                                       eventListeners (logBindingUpdate view) slot boundProp m)
                                (enumerate (length (bindings view)) boundProps))"
    using bindAndWriteToRenderer_Inr [OF run] by blast
  from one run many show ?thesis by blast
qed

theorem statement_order_witness:
  "expression (sampleConverter ViewNameResolver THIS_EXPR (AST ''name'') valUnwrapper 0)
     = Some (ReadPropExpr THIS_EXPR ''name'')
   \<and> DetectChangesRenderPropertiesMethod \<noteq> CreateMethod
   \<and> list_all (\<lambda>boundProp. isKnownContext (prop_securityContext boundProp)) [sampleProperty]
   \<and> stmts_of DetectChangesRenderPropertiesMethod
        (bind sampleConverter emptyView (ReadVar ''currVal_0'') (ReadProp THIS_EXPR ''_expr_0'')
           (AST ''name'') THIS_EXPR ViewNameResolver [] DetectChangesRenderPropertiesMethod 0)
      = [temporaryDeclaration 0 0,
         DeclareVarStmt ''currVal_0'' (ReadPropExpr THIS_EXPR ''name'') [Final],
         guardStmt False (ReadProp THIS_EXPR ''_expr_0'') (ReadVar ''currVal_0'') []]"
  using statement_order
          [of sampleConverter ViewNameResolver THIS_EXPR "AST ''name''" 0
              "ReadPropExpr THIS_EXPR ''name''" DetectChangesRenderPropertiesMethod
              "[sampleProperty]" emptyView "''currVal_0''" "ReadProp THIS_EXPR ''_expr_0''" "[]"]
  by (simp add: sampleConverter_def sampleProperty_def emptyView_def emptyMethod_def stmts_of_def)

section \<open>Render property binder\<close>

text \<open>
  Claim C2. The render property binder registers a bound property at the slot equal to
  the number of bindings already on the view and names the cached field and the
  fresh-value variable after that slot, but it enters the guard emitter with the length of
  the binding list read after the push, one more than the slot. On a view without
  bindings, a property binding whose expression needs one temporary gets the field
  \<open>_expr_0\<close> and the variable \<open>currVal_0\<close>, and the temporary \<open>tmp_1_0\<close>. The text binder,
  on the same view and expression, declares \<open>tmp_0_0\<close>.
\<close>

theorem render_property_temporary_index:
  "map_sum id viewFields
     (bindRenderInputs sampleConverter [sampleProperty] sampleElement [] emptyView)
     = Inr [ClassField ''_expr_0'' [Private]]
   \<and> map_sum id (stmts_of DetectChangesRenderPropertiesMethod)
       (bindRenderInputs sampleConverter [sampleProperty] sampleElement [] emptyView)
     = Inr [DeclareVarStmt ''tmp_1_0'' NULL_EXPR [],
            DeclareVarStmt ''currVal_0''
              (ReadPropExpr (ReadPropExpr THIS_EXPR ''context'') ''name'') [Final],
            IfStmt
              (InvokeFunctionExpr (ExternalExpr checkBinding)
                 [throwOnChange, ReadPropExpr THIS_EXPR ''_expr_0'', ReadVarExpr ''currVal_0''])
              [ExpressionStatement
                 (InvokeMethodExpr (ReadPropExpr THIS_EXPR ''renderer'') ''setElementProperty''
                    [ReadPropExpr THIS_EXPR ''_el_3'', LiteralExpr (LString ''title''),
                     ReadVarExpr ''currVal_0'']),
               ExpressionStatement
                 (WritePropExpr THIS_EXPR ''_expr_0'' (ReadVarExpr ''currVal_0''))]
              []]
   \<and> stmts_of DetectChangesRenderPropertiesMethod
       (bindRenderText sampleConverter \<lparr>text_value = AST ''name''\<rparr> (node_of sampleElement)
          emptyView)
     = [DeclareVarStmt ''tmp_0_0'' NULL_EXPR [],
        DeclareVarStmt ''currVal_0''
          (ReadPropExpr (ReadPropExpr THIS_EXPR ''context'') ''name'') [Final],
        IfStmt
          (InvokeFunctionExpr (ExternalExpr checkBinding)
             [throwOnChange, ReadPropExpr THIS_EXPR ''_expr_0'', ReadVarExpr ''currVal_0''])
          [ExpressionStatement
             (InvokeMethodExpr (ReadPropExpr THIS_EXPR ''renderer'') ''setText''
                [ReadPropExpr THIS_EXPR ''_el_3'', ReadVarExpr ''currVal_0'']),
           ExpressionStatement
             (WritePropExpr THIS_EXPR ''_expr_0'' (ReadVarExpr ''currVal_0''))]
          []]"
proof -
  have run: "bindRenderInputs sampleConverter [sampleProperty] sampleElement [] emptyView
               = bindBoundProp sampleConverter (componentContext emptyView) sampleElement False []
                   sampleProperty emptyView"
    by (simp add: bindRenderInputs_def split: sum.splits)
  obtain view' where v: "bindBoundProp sampleConverter (componentContext emptyView) sampleElement
                           False [] sampleProperty emptyView = Inr view'"
    using bindBoundProp_total [of sampleProperty] by (simp add: sampleProperty_def) blast
  note obs = bindBoundProp_Inr [OF v]
  have flds: "viewFields view' = [ClassField ''_expr_0'' [Private]]"
    by (simp add: obs propFields_def bindFields_def sampleConverter_def sampleProperty_def
          emptyView_def createBindFieldExpr_def string_of_nat_0)
  have body: "stmts_of DetectChangesRenderPropertiesMethod view'
     = [DeclareVarStmt ''tmp_1_0'' NULL_EXPR [],
            DeclareVarStmt ''currVal_0''
              (ReadPropExpr (ReadPropExpr THIS_EXPR ''context'') ''name'') [Final],
            IfStmt
              (InvokeFunctionExpr (ExternalExpr checkBinding)
                 [throwOnChange, ReadPropExpr THIS_EXPR ''_expr_0'', ReadVarExpr ''currVal_0''])
              [ExpressionStatement
                 (InvokeMethodExpr (ReadPropExpr THIS_EXPR ''renderer'') ''setElementProperty''
                    [ReadPropExpr THIS_EXPR ''_el_3'', LiteralExpr (LString ''title''),
                     ReadVarExpr ''currVal_0'']),
               ExpressionStatement
                 (WritePropExpr THIS_EXPR ''_expr_0'' (ReadVarExpr ''currVal_0''))]
              []]"
    by (simp add: obs propStmts_def bindStmts_def evalStmts_def guardStmt_def
          sanitizedValue_def writeToRenderer_def rendererCall_def Let_def
          sampleConverter_def sampleProperty_def sampleElement_def stmts_of_emptyView
          emptyView_simps createBindFieldExpr_def createCurrValueExpr_def temporaryDeclaration_def
          temporaryName_def string_of_nat_0 string_of_nat_1)
  have sibling: "stmts_of DetectChangesRenderPropertiesMethod
       (bindRenderText sampleConverter \<lparr>text_value = AST ''name''\<rparr> (node_of sampleElement)
          emptyView)
     = [DeclareVarStmt ''tmp_0_0'' NULL_EXPR [],
        DeclareVarStmt ''currVal_0''
          (ReadPropExpr (ReadPropExpr THIS_EXPR ''context'') ''name'') [Final],
        IfStmt
          (InvokeFunctionExpr (ExternalExpr checkBinding)
             [throwOnChange, ReadPropExpr THIS_EXPR ''_expr_0'', ReadVarExpr ''currVal_0''])
          [ExpressionStatement
             (InvokeMethodExpr (ReadPropExpr THIS_EXPR ''renderer'') ''setText''
                [ReadPropExpr THIS_EXPR ''_el_3'', ReadVarExpr ''currVal_0'']),
           ExpressionStatement
             (WritePropExpr THIS_EXPR ''_expr_0'' (ReadVarExpr ''currVal_0''))]
          []]"
    by (simp add: bindRenderText_def Let_def stmts_of_bind stmts_of_resetDebugInfo
          frame_resetDebugInfo stmts_of_bindings_update
          bindStmts_def evalStmts_def guardStmt_def node_of_def
          sampleConverter_def sampleElement_def emptyView_simps stmts_of_emptyView
          createBindFieldExpr_def createCurrValueExpr_def temporaryDeclaration_def
          temporaryName_def string_of_nat_0)
  show ?thesis
    by (simp add: run v flds body sibling)
qed

text \<open>
  Claim C7. For an attribute binding with a present evaluation, the guarded update calls
  \<open>setElementAttribute\<close> with the node, the name and the conditional expression that is
  null when the sanitized fresh value equals null and its \<open>toString()\<close> otherwise. For a
  style binding the call is \<open>setElementStyle\<close> and the string form has the unit appended
  when the binding declares one.
\<close>

theorem attribute_and_style_values:
  assumes fresh:
      "sanitizedValue boundProp (var_expr (createCurrValueExpr (length (bindings view))))
         = Inr renderValue"
    and present:
      "expression (conv (if isHostProp then NoLocalsNameResolver else ViewNameResolver) context
                     (prop_value boundProp) valUnwrapper (Suc (length (bindings view)))) = Some e"
    and str: "strValue = InvokeMethodExpr renderValue ''toString'' []"
  shows "\<exists>view' evaluation.
           bindBoundProp conv context compileElement isHostProp eventListeners boundProp view
             = Inr view'
           \<and> filter isIfStmt evaluation = []
           \<and> (prop_type boundProp = Attribute \<longrightarrow>
                stmts_of DetectChangesRenderPropertiesMethod view'
                  = stmts_of DetectChangesRenderPropertiesMethod view @ evaluation
                    @ [guardStmt
                         (needsValueUnwrapper
                            (conv (if isHostProp then NoLocalsNameResolver else ViewNameResolver)
                               context (prop_value boundProp) valUnwrapper
                               (Suc (length (bindings view)))))
                         (createBindFieldExpr (length (bindings view)))
                         (createCurrValueExpr (length (bindings view)))
                         [ExpressionStatement
                            (InvokeMethodExpr (ReadPropExpr THIS_EXPR ''renderer'')
                               ''setElementAttribute''
                               [renderNode compileElement,
                                LiteralExpr (LString (prop_name_of boundProp)),
                                ConditionalExpr
                                  (BinaryOperatorExpr Equals renderValue (LiteralExpr LNull))
                                  (LiteralExpr LNull) strValue])]])
           \<and> (prop_type boundProp = Style \<longrightarrow>
                stmts_of DetectChangesRenderPropertiesMethod view'
                  = stmts_of DetectChangesRenderPropertiesMethod view @ evaluation
                    @ [guardStmt
                         (needsValueUnwrapper
                            (conv (if isHostProp then NoLocalsNameResolver else ViewNameResolver)
                               context (prop_value boundProp) valUnwrapper
                               (Suc (length (bindings view)))))
                         (createBindFieldExpr (length (bindings view)))
                         (createCurrValueExpr (length (bindings view)))
                         [ExpressionStatement
                            (InvokeMethodExpr (ReadPropExpr THIS_EXPR ''renderer'')
                               ''setElementStyle''
                               [renderNode compileElement,
                                LiteralExpr (LString (prop_name_of boundProp)),
                                ConditionalExpr
                                  (BinaryOperatorExpr Equals renderValue (LiteralExpr LNull))
                                  (LiteralExpr LNull)
                                  (case prop_unit boundProp of
                                     None \<Rightarrow> strValue
                                   | Some unit \<Rightarrow>
                                       BinaryOperatorExpr Plus strValue
                                         (LiteralExpr (LString unit)))])]])"
proof -
  let ?n = "length (bindings view)"
  let ?ce = "conv (if isHostProp then NoLocalsNameResolver else ViewNameResolver) context
               (prop_value boundProp) valUnwrapper (Suc ?n)"
  let ?ev = "evalStmts ?ce (createCurrValueExpr ?n) (Suc ?n) e"
  obtain old where old:
    "sanitizedValue boundProp (prop_expr (createBindFieldExpr ?n)) = Inr old"
    using sanitizedValue_known [OF sanitizedValue_Inr_known [OF fresh]] by blast
  obtain view' where run:
    "bindBoundProp conv context compileElement isHostProp eventListeners boundProp view = Inr view'"
    and stmts: "\<forall>m. stmts_of m view'
                     = stmts_of m view
                       @ propStmts conv context compileElement isHostProp eventListeners
                           (logBindingUpdate view) ?n boundProp m"
    using bindBoundProp_known [OF sanitizedValue_Inr_known [OF fresh]] by blast
  have attr: "prop_type boundProp = Attribute \<Longrightarrow>
                stmts_of DetectChangesRenderPropertiesMethod view'
                  = stmts_of DetectChangesRenderPropertiesMethod view @ ?ev
                    @ [guardStmt
                         (needsValueUnwrapper
                            (conv (if isHostProp then NoLocalsNameResolver else ViewNameResolver)
                               context (prop_value boundProp) valUnwrapper
                               (Suc (length (bindings view)))))
                         (createBindFieldExpr (length (bindings view)))
                         (createCurrValueExpr (length (bindings view)))
                         [ExpressionStatement
                            (InvokeMethodExpr (ReadPropExpr THIS_EXPR ''renderer'')
                               ''setElementAttribute''
                               [renderNode compileElement,
                                LiteralExpr (LString (prop_name_of boundProp)),
                                ConditionalExpr
                                  (BinaryOperatorExpr Equals renderValue (LiteralExpr LNull))
                                  (LiteralExpr LNull) strValue])]]"
    using present
    by (simp add: stmts propStmts_def old fresh writeToRenderer_Attribute bindStmts_def Let_def
          str rendererCall_def isBlank_def NULL_EXPR_def)
  have style: "prop_type boundProp = Style \<Longrightarrow>
                stmts_of DetectChangesRenderPropertiesMethod view'
                  = stmts_of DetectChangesRenderPropertiesMethod view @ ?ev
                    @ [guardStmt
                         (needsValueUnwrapper
                            (conv (if isHostProp then NoLocalsNameResolver else ViewNameResolver)
                               context (prop_value boundProp) valUnwrapper
                               (Suc (length (bindings view)))))
                         (createBindFieldExpr (length (bindings view)))
                         (createCurrValueExpr (length (bindings view)))
                         [ExpressionStatement
                            (InvokeMethodExpr (ReadPropExpr THIS_EXPR ''renderer'')
                               ''setElementStyle''
                               [renderNode compileElement,
                                LiteralExpr (LString (prop_name_of boundProp)),
                                ConditionalExpr
                                  (BinaryOperatorExpr Equals renderValue (LiteralExpr LNull))
                                  (LiteralExpr LNull)
                                  (case prop_unit boundProp of
                                     None \<Rightarrow> strValue
                                   | Some unit \<Rightarrow>
                                       BinaryOperatorExpr Plus strValue
                                         (LiteralExpr (LString unit)))])]]"
    using present
    by (simp add: stmts propStmts_def old fresh writeToRenderer_Style bindStmts_def Let_def
          str rendererCall_def isBlank_def NULL_EXPR_def split: option.splits)
  from run attr style isIfStmt_evalStmts [of ?ce "createCurrValueExpr ?n" "Suc ?n" e]
  show ?thesis by blast
qed

theorem attribute_and_style_values_witness:
  "sanitizedValue sampleStyle (var_expr (createCurrValueExpr (length (bindings emptyView))))
     = Inr (sanitize_call ''STYLE'' (ReadVarExpr ''currVal_0''))
   \<and> expression (sampleConverter ViewNameResolver (componentContext emptyView)
                   (prop_value sampleStyle) valUnwrapper (Suc (length (bindings emptyView))))
       = Some (ReadPropExpr (componentContext emptyView) ''w'')
   \<and> (\<exists>view'. bindBoundProp sampleConverter (componentContext emptyView) sampleElement False []
                  sampleStyle emptyView = Inr view')"
  using attribute_and_style_values
          [of sampleStyle emptyView "sanitize_call ''STYLE'' (ReadVarExpr ''currVal_0'')"
              sampleConverter False "componentContext emptyView"
              "ReadPropExpr (componentContext emptyView) ''w''"
              "InvokeMethodExpr (sanitize_call ''STYLE'' (ReadVarExpr ''currVal_0''))
                 ''toString'' []"
              sampleElement "[]"]
  by (simp add: sampleStyle_def sampleConverter_def emptyView_def sanitizedValue_def
        createCurrValueExpr_def string_of_nat_0) blast

text \<open>
  Claim C6. For an animation binding with a present evaluation, whose cached field and
  fresh value sanitize to \<open>oldRenderValue\<close> and \<open>renderValue\<close>: the detach method
  receives the transition computed from the old value as it is and the empty animation
  state, followed by the statements of the matching animation listeners; the main
  change-detection method receives nothing; the animation-bindings method receives the
  evaluation statements and one guard whose apply statements are the transition computed
  from both values, each replaced by the empty animation state when it equals the
  uninitialized sentinel, followed by the same listener statements.
\<close>

theorem animation_transitions:
  assumes kind: "prop_type boundProp = Animation"
    and cached:
      "sanitizedValue boundProp (prop_expr (createBindFieldExpr (length (bindings view))))
         = Inr oldRenderValue"
    and fresh:
      "sanitizedValue boundProp (var_expr (createCurrValueExpr (length (bindings view))))
         = Inr renderValue"
    and present:
      "expression (conv (if isHostProp then NoLocalsNameResolver else ViewNameResolver) context
                     (prop_value boundProp) valUnwrapper (Suc (length (bindings view)))) = Some e"
    and fn: "animationFn = animationFnExpr compileElement isHostProp (prop_name_of boundProp)"
    and listeners:
      "listenerStmts
         = map (\<lambda>listener.
                  listenToAnimation listener
                    (ReadVar (''animationTransition_'' @ prop_name_of boundProp)))
             (filter (\<lambda>listener. isAnimation listener
                                   \<and> eventName listener = prop_name_of boundProp)
                eventListeners)"
  shows "\<exists>view' evaluation.
           bindBoundProp conv context compileElement isHostProp eventListeners boundProp view
             = Inr view'
           \<and> stmts_of DetachMethod view'
               = stmts_of DetachMethod view
                 @ [DeclareVarStmt (''animationTransition_'' @ prop_name_of boundProp)
                      (InvokeFunctionExpr animationFn
                         [THIS_EXPR, renderNode compileElement, oldRenderValue,
                          LiteralExpr (LString EMPTY_ANIMATION_STATE)])
                      []]
                 @ listenerStmts
           \<and> stmts_of DetectChangesRenderPropertiesMethod view'
               = stmts_of DetectChangesRenderPropertiesMethod view
           \<and> filter isIfStmt evaluation = []
           \<and> stmts_of AnimationBindingsMethod view'
               = stmts_of AnimationBindingsMethod view @ evaluation
                 @ [guardStmt
                      (needsValueUnwrapper
                         (conv (if isHostProp then NoLocalsNameResolver else ViewNameResolver)
                            context (prop_value boundProp) valUnwrapper
                            (Suc (length (bindings view)))))
                      (createBindFieldExpr (length (bindings view)))
                      (createCurrValueExpr (length (bindings view)))
                      ([DeclareVarStmt (''animationTransition_'' @ prop_name_of boundProp)
                          (InvokeFunctionExpr animationFn
                             [THIS_EXPR, renderNode compileElement,
                              ConditionalExpr
                                (BinaryOperatorExpr Equals oldRenderValue
                                   (ExternalExpr UNINITIALIZED))
                                (LiteralExpr (LString EMPTY_ANIMATION_STATE)) oldRenderValue,
                              ConditionalExpr
                                (BinaryOperatorExpr Equals renderValue
                                   (ExternalExpr UNINITIALIZED))
                                (LiteralExpr (LString EMPTY_ANIMATION_STATE)) renderValue])
                          []]
                       @ listenerStmts)]"
proof -
  let ?n = "length (bindings view)"
  let ?ce = "conv (if isHostProp then NoLocalsNameResolver else ViewNameResolver) context
               (prop_value boundProp) valUnwrapper (Suc ?n)"
  let ?ev = "evalStmts ?ce (createCurrValueExpr ?n) (Suc ?n) e"
  obtain view' where run:
    "bindBoundProp conv context compileElement isHostProp eventListeners boundProp view = Inr view'"
    and stmts: "\<forall>m. stmts_of m view'
                     = stmts_of m view
                       @ propStmts conv context compileElement isHostProp eventListeners
                           (logBindingUpdate view) ?n boundProp m"
    using bindBoundProp_known [OF sanitizedValue_Inr_known [OF fresh]] by blast
  have block: "\<And>m. propStmts conv context compileElement isHostProp eventListeners
                       (logBindingUpdate view) ?n boundProp m
      = (if m = DetachMethod
         then transitionDecl (prop_name_of boundProp) animationFn
                [THIS_EXPR, renderNode compileElement, oldRenderValue,
                 LiteralExpr (LString EMPTY_ANIMATION_STATE)]
              # listenerStmts
         else [])
        @ (if m = AnimationBindingsMethod then ?ev else [])
        @ (if m = CreateMethod then [fieldInit (createBindFieldExpr ?n)] else [])
        @ (if m = AnimationBindingsMethod
           then [guardStmt (needsValueUnwrapper ?ce) (createBindFieldExpr ?n)
                   (createCurrValueExpr ?n)
                   (transitionDecl (prop_name_of boundProp) animationFn
                      [THIS_EXPR, renderNode compileElement,
                       ConditionalExpr
                         (BinaryOperatorExpr Equals oldRenderValue (ExternalExpr UNINITIALIZED))
                         (LiteralExpr (LString EMPTY_ANIMATION_STATE)) oldRenderValue,
                       ConditionalExpr
                         (BinaryOperatorExpr Equals renderValue (ExternalExpr UNINITIALIZED))
                         (LiteralExpr (LString EMPTY_ANIMATION_STATE)) renderValue]
                    # listenerStmts)]
           else [])"
    using present
    by (simp add: propStmts_def cached fresh writeToRenderer_Animation [OF kind] bindStmts_def
          Let_def fn listeners animationListenerStmts_def)
  have detach: "stmts_of DetachMethod view'
               = stmts_of DetachMethod view
                 @ [DeclareVarStmt (''animationTransition_'' @ prop_name_of boundProp)
                      (InvokeFunctionExpr animationFn
                         [THIS_EXPR, renderNode compileElement, oldRenderValue,
                          LiteralExpr (LString EMPTY_ANIMATION_STATE)])
                      []]
                 @ listenerStmts"
    by (simp add: stmts block transitionDecl_def)
  have main: "stmts_of DetectChangesRenderPropertiesMethod view'
               = stmts_of DetectChangesRenderPropertiesMethod view"
    by (simp add: stmts block)
  have anim: "stmts_of AnimationBindingsMethod view'
               = stmts_of AnimationBindingsMethod view @ ?ev
                 @ [guardStmt (needsValueUnwrapper ?ce) (createBindFieldExpr ?n)
                      (createCurrValueExpr ?n)
                      ([DeclareVarStmt (''animationTransition_'' @ prop_name_of boundProp)
                          (InvokeFunctionExpr animationFn
                             [THIS_EXPR, renderNode compileElement,
                              ConditionalExpr
                                (BinaryOperatorExpr Equals oldRenderValue
                                   (ExternalExpr UNINITIALIZED))
                                (LiteralExpr (LString EMPTY_ANIMATION_STATE)) oldRenderValue,
                              ConditionalExpr
                                (BinaryOperatorExpr Equals renderValue
                                   (ExternalExpr UNINITIALIZED))
                                (LiteralExpr (LString EMPTY_ANIMATION_STATE)) renderValue])
                          []]
                       @ listenerStmts)]"
    by (simp add: stmts block transitionDecl_def)
  from run detach main anim isIfStmt_evalStmts [of ?ce "createCurrValueExpr ?n" "Suc ?n" e]
  show ?thesis by blast
qed

theorem animation_transitions_witness:
  "prop_type sampleAnimation = Animation
   \<and> sanitizedValue sampleAnimation (prop_expr (createBindFieldExpr (length (bindings emptyView))))
       = Inr (ReadPropExpr THIS_EXPR ''_expr_0'')
   \<and> sanitizedValue sampleAnimation (var_expr (createCurrValueExpr (length (bindings emptyView))))
       = Inr (ReadVarExpr ''currVal_0'')
   \<and> expression (sampleConverter ViewNameResolver (componentContext emptyView)
                   (prop_value sampleAnimation) valUnwrapper (Suc (length (bindings emptyView))))
       = Some (ReadPropExpr (componentContext emptyView) ''state'')
   \<and> (\<exists>view'. bindBoundProp sampleConverter (componentContext emptyView) sampleElement False []
                  sampleAnimation emptyView = Inr view'
          \<and> stmts_of DetachMethod view'
              = [DeclareVarStmt ''animationTransition_fade''
                   (InvokeFunctionExpr (animationFnExpr sampleElement False ''fade'')
                      [THIS_EXPR, renderNode sampleElement, ReadPropExpr THIS_EXPR ''_expr_0'',
                       LiteralExpr (LString EMPTY_ANIMATION_STATE)])
                   []]
          \<and> stmts_of DetectChangesRenderPropertiesMethod view' = [])"
  using animation_transitions
          [of sampleAnimation emptyView "ReadPropExpr THIS_EXPR ''_expr_0''"
              "ReadVarExpr ''currVal_0''" sampleConverter False "componentContext emptyView"
              "ReadPropExpr (componentContext emptyView) ''state''"
              "animationFnExpr sampleElement False ''fade''" sampleElement "[]" "[]"]
  by (simp add: sampleAnimation_def sampleConverter_def emptyView_def emptyMethod_def
        sanitizedValue_def createCurrValueExpr_def createBindFieldExpr_def string_of_nat_0
        stmts_of_def) blast

text \<open>
  Claim C10. For an animation binding the function called by both transitions is
  \<open>target.componentType.animations[name]\<close>, where \<open>target\<close> is the component view of
  the element (\<open>appElement.componentView\<close>) for a host property of a directive and the
  current view (\<open>this\<close>) for a binding of the template element.
\<close>

theorem animation_function_lookup:
  assumes kind: "prop_type boundProp = Animation"
    and known: "isKnownContext (prop_securityContext boundProp)"
    and target: "targetViewExpr
                   = (if isHostProp then ReadPropExpr (appElement compileElement) ''componentView''
                      else THIS_EXPR)"
    and fn: "animationFn
               = ReadKeyExpr
                   (ReadPropExpr (ReadPropExpr targetViewExpr ''componentType'') ''animations'')
                   (LiteralExpr (LString (prop_name_of boundProp)))"
    and var: "transitionVar = ''animationTransition_'' @ prop_name_of boundProp"
  shows "\<exists>view' detachArgs detachRest.
           bindBoundProp conv context compileElement isHostProp eventListeners boundProp view
             = Inr view'
           \<and> stmts_of DetachMethod view'
               = stmts_of DetachMethod view
                 @ DeclareVarStmt transitionVar (InvokeFunctionExpr animationFn detachArgs) []
                   # detachRest
           \<and> (expression
                 (conv (if isHostProp then NoLocalsNameResolver else ViewNameResolver) context
                    (prop_value boundProp) valUnwrapper (Suc (length (bindings view)))) \<noteq> None
               \<longrightarrow> (\<exists>evaluation condition updateArgs updateRest.
                      stmts_of AnimationBindingsMethod view'
                        = stmts_of AnimationBindingsMethod view @ evaluation
                          @ [IfStmt condition
                               (DeclareVarStmt transitionVar
                                  (InvokeFunctionExpr animationFn updateArgs) []
                                # updateRest)
                               []]))"
proof -
  let ?n = "length (bindings view)"
  let ?ce = "conv (if isHostProp then NoLocalsNameResolver else ViewNameResolver) context
               (prop_value boundProp) valUnwrapper (Suc ?n)"
  obtain old where old: "sanitizedValue boundProp (prop_expr (createBindFieldExpr ?n)) = Inr old"
    using sanitizedValue_known [OF known] by blast
  obtain new where new: "sanitizedValue boundProp (var_expr (createCurrValueExpr ?n)) = Inr new"
    using sanitizedValue_known [OF known] by blast
  obtain view' where run:
    "bindBoundProp conv context compileElement isHostProp eventListeners boundProp view = Inr view'"
    and stmts: "\<forall>m. stmts_of m view'
                     = stmts_of m view
                       @ propStmts conv context compileElement isHostProp eventListeners
                           (logBindingUpdate view) ?n boundProp m"
    using bindBoundProp_known [OF known] by blast
  note block = propStmts_Animation [OF kind old new]
  have callee: "animationFnExpr compileElement isHostProp (prop_name_of boundProp) = animationFn"
    by (simp add: animationFnExpr_def Let_def fn target)
  have detach: "stmts_of DetachMethod view'
               = stmts_of DetachMethod view
                 @ DeclareVarStmt transitionVar
                     (InvokeFunctionExpr animationFn
                        [THIS_EXPR, renderNode compileElement, old,
                         LiteralExpr (LString EMPTY_ANIMATION_STATE)]) []
                   # animationListenerStmts eventListeners (prop_name_of boundProp)"
    by (simp add: stmts block bindStmts_def Let_def transitionDecl_def callee var
          split: option.splits)
  have update: "\<exists>evaluation condition updateArgs updateRest.
                      stmts_of AnimationBindingsMethod view'
                        = stmts_of AnimationBindingsMethod view @ evaluation
                          @ [IfStmt condition
                               (DeclareVarStmt transitionVar
                                  (InvokeFunctionExpr animationFn updateArgs) []
                                # updateRest)
                               []]"
    if "expression ?ce \<noteq> None"
  proof -
    from that obtain e where e: "expression ?ce = Some e" by blast
    have "stmts_of AnimationBindingsMethod view'
            = stmts_of AnimationBindingsMethod view
              @ evalStmts ?ce (createCurrValueExpr ?n) (Suc ?n) e
              @ [IfStmt
                   (if needsValueUnwrapper ?ce
                    then BinaryOperatorExpr Or (ReadPropExpr valUnwrapper ''hasWrappedValue'')
                           (InvokeFunctionExpr (ExternalExpr checkBinding)
                              [throwOnChange, prop_expr (createBindFieldExpr ?n),
                               var_expr (createCurrValueExpr ?n)])
                    else InvokeFunctionExpr (ExternalExpr checkBinding)
                           [throwOnChange, prop_expr (createBindFieldExpr ?n),
                            var_expr (createCurrValueExpr ?n)])
                   (DeclareVarStmt transitionVar
                      (InvokeFunctionExpr animationFn
                         [THIS_EXPR, renderNode compileElement,
                          ConditionalExpr
                            (BinaryOperatorExpr Equals old (ExternalExpr UNINITIALIZED))
                            (LiteralExpr (LString EMPTY_ANIMATION_STATE)) old,
                          ConditionalExpr
                            (BinaryOperatorExpr Equals new (ExternalExpr UNINITIALIZED))
                            (LiteralExpr (LString EMPTY_ANIMATION_STATE)) new]) []
                    # (animationListenerStmts eventListeners (prop_name_of boundProp)
                       @ [ExpressionStatement
                            (WritePropExpr THIS_EXPR (prop_name (createBindFieldExpr ?n))
                               (var_expr (createCurrValueExpr ?n)))]))
                   []]"
      using e
      by (simp add: stmts block bindStmts_def Let_def transitionDecl_def callee var
            guardStmt_def)
    then show ?thesis by blast
  qed
  from run detach update show ?thesis by blast
qed

theorem animation_function_lookup_witness:
  "prop_type sampleAnimation = Animation
   \<and> isKnownContext (prop_securityContext sampleAnimation)
   \<and> (\<exists>view' detachArgs detachRest.
         bindBoundProp sampleConverter (ReadVarExpr ''_dir'') sampleElement True []
           sampleAnimation emptyView = Inr view'
         \<and> stmts_of DetachMethod view'
             = DeclareVarStmt ''animationTransition_fade''
                 (InvokeFunctionExpr
                    (ReadKeyExpr
                       (ReadPropExpr
                          (ReadPropExpr
                             (ReadPropExpr (ReadPropExpr THIS_EXPR ''_appEl_3'') ''componentView'')
                             ''componentType'')
                          ''animations'')
                       (LiteralExpr (LString ''fade'')))
                    detachArgs) []
               # detachRest)"
  using animation_function_lookup
          [of sampleAnimation
              "ReadPropExpr (ReadPropExpr THIS_EXPR ''_appEl_3'') ''componentView''" True
              sampleElement
              "ReadKeyExpr
                 (ReadPropExpr
                    (ReadPropExpr
                       (ReadPropExpr (ReadPropExpr THIS_EXPR ''_appEl_3'') ''componentView'')
                       ''componentType'')
                    ''animations'')
                 (LiteralExpr (LString ''fade''))"
              "''animationTransition_fade''" sampleConverter "ReadVarExpr ''_dir''" "[]" emptyView]
  by (simp add: sampleAnimation_def sampleElement_def emptyView_def emptyMethod_def stmts_of_def)
     blast

section \<open>Directive input binder\<close>

text \<open>
  Claim C9. The directive input binder adds no field and no create-method statement.
  Every input takes one slot. To the inputs method it appends, for each input in order,
  nothing when the evaluation is absent, and otherwise the evaluation statements followed
  by exactly one call \<open>wrapper.check_<name>(currVal, throwOnChange, force)\<close>, where
  \<open>force\<close> is the unwrapper's flag when unwrapping is needed and the literal false
  otherwise; none of these statements is a conditional. The wrapper's own change
  detection statement follows last.
\<close>

theorem directive_inputs_forwarded:
  assumes result: "view' = bindDirectiveInputs conv directiveAst directiveWrapperInstance
                             compileElement view"
    and emitted: "emitted = drop (length (stmts_of DetectChangesInInputsMethod view))
                              (stmts_of DetectChangesInInputsMethod view')"
  shows "viewFields view' = viewFields view
       \<and> stmts_of CreateMethod view' = stmts_of CreateMethod view
       \<and> length (bindings view') = length (bindings view) + length (inputs directiveAst)
       \<and> stmts_of DetectChangesInInputsMethod view'
           = stmts_of DetectChangesInInputsMethod view @ emitted
       \<and> filter isIfStmt (butlast emitted) = []
       \<and> emitted
           = concat
               (map (\<lambda>(slot, input).
                       case expression (conv ViewNameResolver (componentContext view)
                                          (input_value input) valUnwrapper slot) of
                         None \<Rightarrow> []
                       | Some e \<Rightarrow>
                           map (temporaryDeclaration slot)
                             [0..<temporaryCount
                                    (conv ViewNameResolver (componentContext view)
                                       (input_value input) valUnwrapper slot)]
                           @ (if needsValueUnwrapper
                                   (conv ViewNameResolver (componentContext view)
                                      (input_value input) valUnwrapper slot)
                              then [ExpressionStatement
                                      (InvokeMethodExpr valUnwrapper ''reset'' [])]
                              else [])
                           @ [DeclareVarStmt (''currVal_'' @ string_of_nat slot) e [Final],
                              ExpressionStatement
                                (InvokeMethodExpr directiveWrapperInstance
                                   (''check_'' @ directiveName input)
                                   [ReadVarExpr (''currVal_'' @ string_of_nat slot),
                                    throwOnChange,
                                    if needsValueUnwrapper
                                         (conv ViewNameResolver (componentContext view)
                                            (input_value input) valUnwrapper slot)
                                    then ReadPropExpr valUnwrapper ''hasWrappedValue''
                                    else LiteralExpr (LBool False)])])
                  (enumerate (length (bindings view)) (inputs directiveAst)))
             @ [detectChangesStmt directiveAst directiveWrapperInstance compileElement]"
proof -
  let ?blocks = "concat (map (\<lambda>(slot, input).
                    inputStmts conv directiveWrapperInstance (componentContext view) slot input)
                   (enumerate (length (bindings view)) (inputs directiveAst)))"
  have block:
    "inputStmts conv directiveWrapperInstance (componentContext view)
      = (\<lambda>slot input. case expression (conv ViewNameResolver (componentContext view)
                                            (input_value input) valUnwrapper slot) of
                           None \<Rightarrow> []
                         | Some e \<Rightarrow>
                             map (temporaryDeclaration slot)
                               [0..<temporaryCount
                                      (conv ViewNameResolver (componentContext view)
                                         (input_value input) valUnwrapper slot)]
                             @ (if needsValueUnwrapper
                                     (conv ViewNameResolver (componentContext view)
                                        (input_value input) valUnwrapper slot)
                                then [ExpressionStatement
                                        (InvokeMethodExpr valUnwrapper ''reset'' [])]
                                else [])
                             @ [DeclareVarStmt (''currVal_'' @ string_of_nat slot) e [Final],
                                ExpressionStatement
                                  (InvokeMethodExpr directiveWrapperInstance
                                     (''check_'' @ directiveName input)
                                     [ReadVarExpr (''currVal_'' @ string_of_nat slot),
                                      throwOnChange,
                                      if needsValueUnwrapper
                                           (conv ViewNameResolver (componentContext view)
                                              (input_value input) valUnwrapper slot)
                                      then ReadPropExpr valUnwrapper ''hasWrappedValue''
                                      else LiteralExpr (LBool False)])])"
    by (intro ext)
       (simp add: inputStmts_def Let_def evalStmts_def unwrapperReset_def checkInputStmt_def
          createCurrValueExpr_def split: option.splits)
  have em: "emitted
              = ?blocks @ [detectChangesStmt directiveAst directiveWrapperInstance compileElement]"
    by (simp add: emitted result bindDirectiveInputs_obs)
  have noif: "filter isIfStmt (butlast emitted) = []"
    by (simp add: em isIfStmt_input_blocks)
  have frame: "viewFields view' = viewFields view
       \<and> stmts_of CreateMethod view' = stmts_of CreateMethod view
       \<and> length (bindings view') = length (bindings view) + length (inputs directiveAst)
       \<and> stmts_of DetectChangesInInputsMethod view'
           = stmts_of DetectChangesInInputsMethod view @ emitted"
    by (simp add: em result bindDirectiveInputs_obs)
  from frame noif em show ?thesis
    by (simp only: block)
qed

theorem directive_inputs_forwarded_witness:
  "stmts_of DetectChangesInInputsMethod
     (bindDirectiveInputs sampleConverter sampleDirective (ReadPropExpr THIS_EXPR ''_dir'')
        sampleElement emptyView)
   = [temporaryDeclaration 0 0,
      DeclareVarStmt ''currVal_0'' (ReadPropExpr (ReadPropExpr THIS_EXPR ''context'') ''v'') [Final],
      ExpressionStatement
        (InvokeMethodExpr (ReadPropExpr THIS_EXPR ''_dir'') ''check_value''
           [ReadVarExpr ''currVal_0'', throwOnChange, LiteralExpr (LBool False)]),
      detectChangesStmt sampleDirective (ReadPropExpr THIS_EXPR ''_dir'') sampleElement]"
  using directive_inputs_forwarded
          [of "bindDirectiveInputs sampleConverter sampleDirective (ReadPropExpr THIS_EXPR ''_dir'')
                 sampleElement emptyView"
              sampleConverter sampleDirective "ReadPropExpr THIS_EXPR ''_dir''" sampleElement
              emptyView
              "drop (length (stmts_of DetectChangesInInputsMethod emptyView))
                 (stmts_of DetectChangesInInputsMethod
                    (bindDirectiveInputs sampleConverter sampleDirective
                       (ReadPropExpr THIS_EXPR ''_dir'') sampleElement emptyView))"]
  by (simp add: sampleConverter_def sampleDirective_def emptyView_simps stmts_of_emptyView
        string_of_nat_0 string_of_nat_1)

text \<open>
  Claim C5. The last statement the directive input binder appends, after everything the
  inputs contributed, is the wrapper's \<open>detectChangesInternal(this, renderNode,
  throwOnChange)\<close> call. It is a plain expression statement exactly when the directive is
  not a component with a non-default change detection strategy, and it is the conditional
  on that call with the single then-statement \<open>appElement.componentView.markAsCheckOnce()\<close>
  exactly when it is.
\<close>

theorem detectChanges_call_shape:
  assumes stmts: "stmts = stmts_of DetectChangesInInputsMethod
                            (bindDirectiveInputs conv directiveAst directiveWrapperInstance
                               compileElement view)"
    and call: "call = InvokeMethodExpr directiveWrapperInstance ''detectChangesInternal''
                        [THIS_EXPR, renderNode compileElement, throwOnChange]"
    and onPush: "isOnPushComp = (isComponent (directive directiveAst)
                   \<and> \<not> isDefaultChangeDetectionStrategy (changeDetection (directive directiveAst)))"
  shows "stmts \<noteq> []
       \<and> butlast stmts
           = stmts_of DetectChangesInInputsMethod
               (bindInputs conv directiveWrapperInstance compileElement (inputs directiveAst)
                  (resetDebugInfo DetectChangesInInputsMethod (nodeIndex compileElement)
                     (sourceAst compileElement) view))
       \<and> (last stmts = ExpressionStatement call) = (\<not> isOnPushComp)
       \<and> (last stmts
            = IfStmt call
                [ExpressionStatement
                   (InvokeMethodExpr (ReadPropExpr (appElement compileElement) ''componentView'')
                      ''markAsCheckOnce'' [])]
                []) = isOnPushComp"
  by (simp add: stmts call onPush bindDirectiveInputs_eq stmts_of_addStmt detectChangesStmt_def
        Let_def)

theorem detectChanges_call_shape_witness:
  "last (stmts_of DetectChangesInInputsMethod
           (bindDirectiveInputs sampleConverter sampleDirective (ReadPropExpr THIS_EXPR ''_dir'')
              sampleElement emptyView))
   = IfStmt (InvokeMethodExpr (ReadPropExpr THIS_EXPR ''_dir'') ''detectChangesInternal''
               [THIS_EXPR, renderNode sampleElement, throwOnChange])
       [ExpressionStatement
          (InvokeMethodExpr (ReadPropExpr (appElement sampleElement) ''componentView'')
             ''markAsCheckOnce'' [])]
       []"
  using detectChanges_call_shape
          [of "stmts_of DetectChangesInInputsMethod
                 (bindDirectiveInputs sampleConverter sampleDirective
                    (ReadPropExpr THIS_EXPR ''_dir'') sampleElement emptyView)"
              sampleConverter sampleDirective "ReadPropExpr THIS_EXPR ''_dir''" sampleElement
              emptyView
              "InvokeMethodExpr (ReadPropExpr THIS_EXPR ''_dir'') ''detectChangesInternal''
                 [THIS_EXPR, renderNode sampleElement, throwOnChange]"
              True]
  by (simp add: sampleDirective_def isDefaultChangeDetectionStrategy_def)

end
